theory Spec2Isabelle
  imports Complex_Main "HOL-Library.Multiset"
begin

section \<open>JavaScript values\<close>

text \<open>
  The extraction service (\<^verbatim>\<open>services/geminiService\<close>) works on whatever
  \<^verbatim>\<open>JSON.parse\<close> returns, so the model needs the run-time values of JavaScript: the
  results of \<^verbatim>\<open>JSON.parse\<close> (null, booleans, numbers, strings, arrays, objects) and
  \<^verbatim>\<open>undefined\<close>, which a property access on a missing key produces.

  A number that \<^verbatim>\<open>JSON.parse\<close> returns is a finite double or, for a literal that
  overflows, an infinity; it is never NaN. The only operation the code applies to a
  number is the comparison \<^verbatim>\<open>> 0\<close>, for which a finite double is its rational value.
\<close>

datatype jnumber = Finite rat | PosInfinity | NegInfinity

datatype jsval =
    Undefined
  | Null
  | Bool bool
  | Num jnumber
  | Str string
  | Arr "jsval list"
  | Obj "(string \<times> jsval) list"

text \<open>The values thrown in the service: the \<^verbatim>\<open>Error\<close> objects it constructs itself,
  the \<^verbatim>\<open>TypeError\<close> of a property access on \<^verbatim>\<open>null\<close> or \<^verbatim>\<open>undefined\<close>, the
  \<^verbatim>\<open>SyntaxError\<close> of \<^verbatim>\<open>JSON.parse\<close>, and whatever the backend call rejects with.\<close>

datatype js_error = Error string | TypeError | SyntaxError

text \<open>\<^verbatim>\<open>typeof v\<close>.\<close>

fun typeof :: "jsval \<Rightarrow> string" where
  "typeof Undefined = ''undefined''"
| "typeof Null = ''object''"
| "typeof (Bool b) = ''boolean''"
| "typeof (Num n) = ''number''"
| "typeof (Str s) = ''string''"
| "typeof (Arr vs) = ''object''"
| "typeof (Obj kvs) = ''object''"

text \<open>\<^verbatim>\<open>n > 0\<close> on a number.\<close>

fun gt0 :: "jnumber \<Rightarrow> bool" where
  "gt0 (Finite q) = (0 < q)"
| "gt0 PosInfinity = True"
| "gt0 NegInfinity = False"

text \<open>Truthiness, as \<^verbatim>\<open>&&\<close>, \<^verbatim>\<open>!\<close> and \<^verbatim>\<open>if\<close> read a value.\<close>

fun truthy :: "jsval \<Rightarrow> bool" where
  "truthy Undefined = False"
| "truthy Null = False"
| "truthy (Bool b) = b"
| "truthy (Num n) = (n \<noteq> Finite 0)"
| "truthy (Str s) = (s \<noteq> [])"
| "truthy (Arr vs) = True"
| "truthy (Obj kvs) = True"

text \<open>
  \<^verbatim>\<open>v.k\<close> for a value that is neither \<^verbatim>\<open>null\<close> nor \<^verbatim>\<open>undefined\<close> (on those the access
  throws; every access of the service on a possibly-null value is written out where it
  stands). An object is the list of its own properties; a key that is absent reads as
  \<^verbatim>\<open>undefined\<close>, and so does every key of the service's schemas on a primitive or an
  array. (Keys inherited from the prototypes, such as \<^verbatim>\<open>length\<close> or \<^verbatim>\<open>constructor\<close>,
  are not keys the service reads.)
\<close>

fun getProp :: "jsval \<Rightarrow> string \<Rightarrow> jsval" where
  "getProp (Obj kvs) k = (case map_of kvs k of Some v \<Rightarrow> v | None \<Rightarrow> Undefined)"
| "getProp v k = Undefined"

text \<open>\<^verbatim>\<open>Array.isArray(v)\<close>.\<close>

fun isArray :: "jsval \<Rightarrow> bool" where
  "isArray (Arr vs) = True"
| "isArray v = False"

text \<open>The string and the number inside a value whose \<^verbatim>\<open>typeof\<close> has been checked.\<close>

fun str_of :: "jsval \<Rightarrow> string" where
  "str_of (Str s) = s"
| "str_of v = []"

fun num_of :: "jsval \<Rightarrow> jnumber" where
  "num_of (Num n) = n"
| "num_of v = Finite 0"

section \<open>Requests to the extraction backend\<close>

text \<open>
  A response schema (\<^verbatim>\<open>Type.OBJECT\<close> with its properties and its \<^verbatim>\<open>required\<close> list, and
  the scalar and array types). The \<^verbatim>\<open>description\<close> strings of the source are documentation
  for the backend and are left out.
\<close>

datatype schema =
    BOOLEAN
  | NUMBER
  | STRING
  | ARRAY schema
  | OBJECT "(string \<times> schema) list" "string list"

text \<open>
  The prompt templates of the service, one constructor per template literal, with the
  values the template interpolates as arguments.
\<close>

datatype prompt =
    AskGlucoseMeter
  | AskFood
  | AskWeightScale
  | AskBloodPressureMonitor
  | GlucoseFromText string
  | GlucoseFromImage
  | MedicationFromText "string list" string
  | MealFromImage
  | WeightFromImage
  | WeightFromText string
  | BloodPressureFromImage
  | BloodPressureFromText string

datatype part = InlineData string string | Text prompt

datatype contents = Prompt prompt | Parts "part list"

record request =
  model :: string
  contents :: contents
  responseMimeType :: string
  responseSchema :: schema

text \<open>
  What the code does not define is a parameter of the model: the backend call
  \<^verbatim>\<open>ai.models.generateContent\<close>, which either rejects or resolves to a response whose
  \<^verbatim>\<open>text\<close> is a string or \<^verbatim>\<open>undefined\<close>, and which may answer differently each time
  (its answer depends on the requests issued before); and the built-ins
  \<^verbatim>\<open>String.prototype.trim\<close>, \<^verbatim>\<open>JSON.parse\<close> and \<^verbatim>\<open>String.prototype.toLowerCase\<close>.
\<close>

record js_env =
  ai :: "request list \<Rightarrow> request \<Rightarrow> js_error + string option"
  trim :: "string \<Rightarrow> string"
  JSON_parse :: "string \<Rightarrow> js_error + jsval"
  toLowerCase :: "string \<Rightarrow> string"

text \<open>
  An operation of the service runs against the log of the requests issued so far and
  returns its outcome (\<open>Inl\<close>: the exception it throws) with the extended log.
\<close>

type_synonym 'a io = "request list \<Rightarrow> (js_error + 'a) \<times> request list"

definition generateContent :: "js_env \<Rightarrow> request \<Rightarrow> (string option) io" where
  "generateContent env rq reqs = (ai env reqs rq, reqs @ [rq])"

text \<open>
  The three statements every operation shares:
  \<^verbatim>\<open>response = await ai.models.generateContent(rq); JSON.parse(response.text.trim())\<close>.
\<close>

definition fetchJson :: "js_env \<Rightarrow> request \<Rightarrow> jsval io" where
  "fetchJson env rq reqs =
     (case generateContent env rq reqs of
        (Inl e, reqs') \<Rightarrow> (Inl e, reqs')
      | (Inr None, reqs') \<Rightarrow> (Inl TypeError, reqs')
      | (Inr (Some text), reqs') \<Rightarrow> (JSON_parse env (trim env text), reqs'))"

text \<open>\<^verbatim>\<open>try { body } catch (error) { console.error(...); return v; }\<close>\<close>

definition try_catch :: "'a io \<Rightarrow> 'a \<Rightarrow> 'a io" where
  "try_catch body v reqs =
     (case body reqs of
        (Inl e, reqs') \<Rightarrow> (Inr v, reqs')
      | (Inr r, reqs') \<Rightarrow> (Inr r, reqs'))"

subsection \<open>classify: is the image of the expected kind?\<close>

definition classifyRequest :: "string \<Rightarrow> string \<Rightarrow> prompt \<Rightarrow> string \<Rightarrow> request" where
  "classifyRequest base64Image mimeType question field =
     \<lparr>model = ''gemini-2.5-flash'',
      contents = Parts [InlineData base64Image mimeType, Text question],
      responseMimeType = ''application/json'',
      responseSchema = OBJECT [(field, BOOLEAN)] [field]\<rparr>"

text \<open>The body of the \<^verbatim>\<open>try\<close> block: \<^verbatim>\<open>return JSON.parse(response.text.trim()).field\<close>.
  The access throws on \<^verbatim>\<open>null\<close> (and would on \<^verbatim>\<open>undefined\<close>); the value returned is whatever
  the field holds, a boolean or not.\<close>

definition classifyBody :: "js_env \<Rightarrow> request \<Rightarrow> string \<Rightarrow> jsval io" where
  "classifyBody env rq field reqs =
     (case fetchJson env rq reqs of
        (Inl e, reqs') \<Rightarrow> (Inl e, reqs')
      | (Inr parsed, reqs') \<Rightarrow>
          (if parsed = Null \<or> parsed = Undefined then (Inl TypeError, reqs')
           else (Inr (getProp parsed field), reqs')))"

definition isImageOfGlucoseMeter :: "js_env \<Rightarrow> string \<Rightarrow> string \<Rightarrow> jsval io" where
  "isImageOfGlucoseMeter env base64Image mimeType =
     try_catch
       (classifyBody env (classifyRequest base64Image mimeType AskGlucoseMeter ''isMeter'') ''isMeter'')
       (Bool False)"

definition isImageOfFood :: "js_env \<Rightarrow> string \<Rightarrow> string \<Rightarrow> jsval io" where
  "isImageOfFood env base64Image mimeType =
     try_catch
       (classifyBody env (classifyRequest base64Image mimeType AskFood ''isFood'') ''isFood'')
       (Bool False)"

definition isImageOfWeightScale :: "js_env \<Rightarrow> string \<Rightarrow> string \<Rightarrow> jsval io" where
  "isImageOfWeightScale env base64Image mimeType =
     try_catch
       (classifyBody env (classifyRequest base64Image mimeType AskWeightScale ''isScale'') ''isScale'')
       (Bool False)"

definition isImageOfBloodPressureMonitor :: "js_env \<Rightarrow> string \<Rightarrow> string \<Rightarrow> jsval io" where
  "isImageOfBloodPressureMonitor env base64Image mimeType =
     try_catch
       (classifyBody env
          (classifyRequest base64Image mimeType AskBloodPressureMonitor ''isMonitor'') ''isMonitor'')
       (Bool False)"

subsection \<open>Extraction from text\<close>

definition glucoseSchema :: schema where
  "glucoseSchema =
     OBJECT [(''value'', NUMBER), (''unit'', STRING), (''context'', STRING)]
            [''value'', ''unit'', ''context'']"

definition weightSchema :: schema where
  "weightSchema = OBJECT [(''value'', NUMBER), (''unit'', STRING)] [''value'', ''unit'']"

definition bloodPressureSchema :: schema where
  "bloodPressureSchema =
     OBJECT [(''systolic'', NUMBER), (''diastolic'', NUMBER), (''pulse'', NUMBER)]
            [''systolic'', ''diastolic'', ''pulse'']"

definition medicationSchema :: schema where
  "medicationSchema =
     OBJECT [(''name'', STRING), (''quantity'', NUMBER)] [''name'', ''quantity'']"

definition nutritionSchema :: schema where
  "nutritionSchema =
     OBJECT [(''carbohydrates'', NUMBER), (''calories'', NUMBER), (''protein'', NUMBER),
             (''fat'', NUMBER)]
            [''carbohydrates'', ''calories'', ''protein'', ''fat'']"

definition mealSchema :: schema where
  "mealSchema =
     OBJECT [(''foodItems'',
                ARRAY (OBJECT [(''name'', STRING), (''nutrition'', nutritionSchema)]
                              [''name'', ''nutrition''])),
             (''totalNutrition'', nutritionSchema)]
            [''foodItems'', ''totalNutrition'']"

definition textRequest :: "prompt \<Rightarrow> schema \<Rightarrow> request" where
  "textRequest p sch =
     \<lparr>model = ''gemini-2.5-flash'', contents = Prompt p,
      responseMimeType = ''application/json'', responseSchema = sch\<rparr>"

definition imageRequest :: "string \<Rightarrow> string \<Rightarrow> prompt \<Rightarrow> schema \<Rightarrow> request" where
  "imageRequest base64Image mimeType p sch =
     \<lparr>model = ''gemini-2.5-flash'',
      contents = Parts [InlineData base64Image mimeType, Text p],
      responseMimeType = ''application/json'', responseSchema = sch\<rparr>"

text \<open>The checks the operations run on the parsed response before they return it.\<close>

definition glucoseValid :: "jsval \<Rightarrow> bool" where
  "glucoseValid parsed \<longleftrightarrow>
     truthy parsed \<and> typeof (getProp parsed ''value'') = ''number''
       \<and> typeof (getProp parsed ''unit'') = ''string''
       \<and> typeof (getProp parsed ''context'') = ''string''"

definition weightValid :: "jsval \<Rightarrow> bool" where
  "weightValid parsed \<longleftrightarrow>
     truthy parsed \<and> typeof (getProp parsed ''value'') = ''number''
       \<and> (getProp parsed ''unit'' = Str ''kg'' \<or> getProp parsed ''unit'' = Str ''lbs'')"

definition bloodPressureValid :: "jsval \<Rightarrow> bool" where
  "bloodPressureValid parsed \<longleftrightarrow>
     truthy parsed \<and> typeof (getProp parsed ''systolic'') = ''number''
       \<and> typeof (getProp parsed ''diastolic'') = ''number''
       \<and> typeof (getProp parsed ''pulse'') = ''number''"

definition mealValid :: "jsval \<Rightarrow> bool" where
  "mealValid parsed \<longleftrightarrow>
     truthy parsed \<and> isArray (getProp parsed ''foodItems'')
       \<and> truthy (getProp parsed ''totalNutrition'')"

text \<open>
  The body of the \<^verbatim>\<open>try\<close> block of an extraction:
  \<^verbatim>\<open>parsed = JSON.parse(response.text.trim()); if (valid) return parsed; return null;\<close>
  (\<open>None\<close> is the \<^verbatim>\<open>null\<close> result).
\<close>

definition extractBody :: "js_env \<Rightarrow> request \<Rightarrow> (jsval \<Rightarrow> bool) \<Rightarrow> (jsval option) io" where
  "extractBody env rq valid reqs =
     (case fetchJson env rq reqs of
        (Inl e, reqs') \<Rightarrow> (Inl e, reqs')
      | (Inr parsed, reqs') \<Rightarrow> (Inr (if valid parsed then Some parsed else None), reqs'))"

definition parseGlucoseReadingFromText :: "js_env \<Rightarrow> string \<Rightarrow> (jsval option) io" where
  "parseGlucoseReadingFromText env transcript =
     try_catch
       (extractBody env (textRequest (GlucoseFromText transcript) glucoseSchema) glucoseValid)
       None"

definition parseWeightFromText :: "js_env \<Rightarrow> string \<Rightarrow> (jsval option) io" where
  "parseWeightFromText env transcript =
     try_catch
       (extractBody env (textRequest (WeightFromText transcript) weightSchema) weightValid)
       None"

definition parseBloodPressureFromText :: "js_env \<Rightarrow> string \<Rightarrow> (jsval option) io" where
  "parseBloodPressureFromText env transcript =
     try_catch
       (extractBody env (textRequest (BloodPressureFromText transcript) bloodPressureSchema)
          bloodPressureValid)
       None"

subsection \<open>Extraction from an image\<close>

text \<open>
  \<^verbatim>\<open>if (!(await classify(base64Image, mimeType))) throw new Error(message);\<close>
  followed by the \<^verbatim>\<open>try\<close> block. The \<^verbatim>\<open>throw\<close> stands before the \<^verbatim>\<open>try\<close>, so it leaves
  the operation.
\<close>

definition afterClassify ::
  "jsval io \<Rightarrow> string \<Rightarrow> (jsval option) io \<Rightarrow> (jsval option) io" where
  "afterClassify classify message rest reqs =
     (case classify reqs of
        (Inl e, reqs') \<Rightarrow> (Inl e, reqs')
      | (Inr isKind, reqs') \<Rightarrow>
          (if \<not> truthy isKind then (Inl (Error message), reqs') else rest reqs'))"

definition parseGlucoseReadingFromImage ::
  "js_env \<Rightarrow> string \<Rightarrow> string \<Rightarrow> (jsval option) io" where
  "parseGlucoseReadingFromImage env base64Image mimeType =
     afterClassify (isImageOfGlucoseMeter env base64Image mimeType)
       ''Image does not appear to contain a glucose meter.''
       (try_catch
          (extractBody env (imageRequest base64Image mimeType GlucoseFromImage glucoseSchema)
             glucoseValid)
          None)"

definition analyzeMealPhoto :: "js_env \<Rightarrow> string \<Rightarrow> string \<Rightarrow> (jsval option) io" where
  "analyzeMealPhoto env base64Image mimeType =
     afterClassify (isImageOfFood env base64Image mimeType)
       ''Image does not appear to contain food.''
       (try_catch
          (extractBody env (imageRequest base64Image mimeType MealFromImage mealSchema) mealValid)
          None)"

definition parseWeightFromImage :: "js_env \<Rightarrow> string \<Rightarrow> string \<Rightarrow> (jsval option) io" where
  "parseWeightFromImage env base64Image mimeType =
     afterClassify (isImageOfWeightScale env base64Image mimeType)
       ''Image does not appear to contain a weight scale.''
       (try_catch
          (extractBody env (imageRequest base64Image mimeType WeightFromImage weightSchema)
             weightValid)
          None)"

definition parseBloodPressureFromImage ::
  "js_env \<Rightarrow> string \<Rightarrow> string \<Rightarrow> (jsval option) io" where
  "parseBloodPressureFromImage env base64Image mimeType =
     afterClassify (isImageOfBloodPressureMonitor env base64Image mimeType)
       ''Image does not appear to contain a blood pressure monitor.''
       (try_catch
          (extractBody env
             (imageRequest base64Image mimeType BloodPressureFromImage bloodPressureSchema)
             bloodPressureValid)
          None)"

subsection \<open>Matching a medication\<close>

text \<open>An entry of the medication catalog (\<^verbatim>\<open>UserMedication\<close>).\<close>

record userMedication =
  um_id :: string
  name :: string
  dosage :: rat
  unit :: string

text \<open>\<^verbatim>\<open>Array.prototype.find\<close>: the first element that satisfies the predicate.\<close>

fun find_first :: "('a \<Rightarrow> bool) \<Rightarrow> 'a list \<Rightarrow> 'a option" where
  "find_first P [] = None"
| "find_first P (x # xs) = (if P x then Some x else find_first P xs)"

text \<open>
  The body of the \<^verbatim>\<open>try\<close> block of \<^verbatim>\<open>parseMedicationFromText\<close>. The result is the pair
  \<^verbatim>\<open>{ matchedMed, quantity: parsed.quantity }\<close>.
\<close>

definition matchBody ::
  "js_env \<Rightarrow> string \<Rightarrow> userMedication list \<Rightarrow> ((userMedication \<times> jnumber) option) io" where
  "matchBody env transcript userMedications reqs =
     (let medicationNames = map name userMedications in
      case fetchJson env
             (textRequest (MedicationFromText medicationNames transcript) medicationSchema) reqs of
        (Inl e, reqs') \<Rightarrow> (Inl e, reqs')
      | (Inr parsed, reqs') \<Rightarrow>
          (if truthy parsed \<and> typeof (getProp parsed ''name'') = ''string''
                \<and> typeof (getProp parsed ''quantity'') = ''number''
                \<and> gt0 (num_of (getProp parsed ''quantity''))
           then
             (case find_first
                     (\<lambda>m. toLowerCase env (name m)
                            = toLowerCase env (str_of (getProp parsed ''name'')))
                     userMedications of
                Some matchedMed \<Rightarrow>
                  (Inr (Some (matchedMed, num_of (getProp parsed ''quantity''))), reqs')
              | None \<Rightarrow> (Inr None, reqs'))
           else (Inr None, reqs')))"

definition parseMedicationFromText ::
  "js_env \<Rightarrow> string \<Rightarrow> userMedication list \<Rightarrow> ((userMedication \<times> jnumber) option) io" where
  "parseMedicationFromText env transcript userMedications reqs =
     (if length userMedications = 0 then (Inr None, reqs)
      else try_catch (matchBody env transcript userMedications) None reqs)"

section \<open>The application's reading lists (\<^verbatim>\<open>App.tsx\<close>)\<close>

text \<open>
  The five kinds of log entry, as the \<^verbatim>\<open>type\<close> tag of a \<^verbatim>\<open>LogEntry\<close> names them
  (\<^verbatim>\<open>'glucose'\<close>, \<^verbatim>\<open>'meal'\<close>, \<^verbatim>\<open>'medication'\<close>, \<^verbatim>\<open>'weight'\<close>, \<^verbatim>\<open>'blood_pressure'\<close>).
\<close>

datatype kind = Glucose | Meal | Medication | Weight | Blood_pressure

text \<open>
  A reading. The application reads two of its fields: \<^verbatim>\<open>id\<close>, which the add functions
  generate, and \<^verbatim>\<open>timestamp\<close>, by which the lists are sorted. The timestamp is an ISO
  string in the source, which every comparison turns into epoch milliseconds with
  \<^verbatim>\<open>new Date(timestamp).getTime()\<close>; the model holds these milliseconds. (The callers
  produce the string with \<^verbatim>\<open>toISOString()\<close>, so it denotes a valid date.) The other
  fields differ from kind to kind and are carried along untouched: \<open>others\<close>.
\<close>

record 'p reading =
  id' :: string
  timestamp :: int
  others :: 'p

text \<open>\<^verbatim>\<open>{ ...r, type: k }\<close>: a reading with its tag.\<close>

record 'p logEntry = "'p reading" +
  type' :: kind

record 'p app =
  glucoseReadings :: "'p reading list"
  meals :: "'p reading list"
  medications :: "'p reading list"
  weightReadings :: "'p reading list"
  bloodPressureReadings :: "'p reading list"

text \<open>
  \<^verbatim>\<open>xs.sort((a, b) => new Date(b.timestamp).getTime() - new Date(a.timestamp).getTime())\<close>.
  \<^verbatim>\<open>Array.prototype.sort\<close> is a stable sort; with this comparator it orders by decreasing
  timestamp. \<open>sort_key\<close> is the stable insertion sort of the library, here by the negated
  timestamp.
\<close>

definition sortNewestFirst :: "('p, 'z) reading_scheme list \<Rightarrow> ('p, 'z) reading_scheme list" where
  "sortNewestFirst xs = sort_key (\<lambda>e. - timestamp e) xs"

text \<open>The decimal digits of a number, as a template literal prints \<^verbatim>\<open>Date.now()\<close>.\<close>

fun decimal :: "nat \<Rightarrow> string" where
  "decimal n =
     (if n < 10 then [''0123456789'' ! n]
      else decimal (n div 10) @ [''0123456789'' ! (n mod 10)])"

text \<open>
  The add functions. Each takes the reading without its id and the value of
  \<^verbatim>\<open>Date.now()\<close> at the call, appends the reading with the generated id to the list of
  its kind and sorts that list.
\<close>

definition addGlucoseReading :: "'p reading \<Rightarrow> nat \<Rightarrow> 'p app \<Rightarrow> 'p app" where
  "addGlucoseReading reading now s =
     s\<lparr>glucoseReadings :=
         sortNewestFirst (glucoseReadings s @ [reading\<lparr>id' := ''g'' @ decimal now\<rparr>])\<rparr>"

text \<open>\<^verbatim>\<open>addMeal\<close> also returns the new meal.\<close>

definition addMeal :: "'p reading \<Rightarrow> nat \<Rightarrow> 'p app \<Rightarrow> 'p reading \<times> 'p app" where
  "addMeal meal now s =
     (let newMeal = meal\<lparr>id' := ''m'' @ decimal now\<rparr>
      in (newMeal, s\<lparr>meals := sortNewestFirst (meals s @ [newMeal])\<rparr>))"

definition addMedication :: "'p reading \<Rightarrow> nat \<Rightarrow> 'p app \<Rightarrow> 'p app" where
  "addMedication medication now s =
     s\<lparr>medications :=
         sortNewestFirst (medications s @ [medication\<lparr>id' := ''med'' @ decimal now\<rparr>])\<rparr>"

definition addWeightReading :: "'p reading \<Rightarrow> nat \<Rightarrow> 'p app \<Rightarrow> 'p app" where
  "addWeightReading reading now s =
     s\<lparr>weightReadings :=
         sortNewestFirst (weightReadings s @ [reading\<lparr>id' := ''w'' @ decimal now\<rparr>])\<rparr>"

definition addBloodPressureReading :: "'p reading \<Rightarrow> nat \<Rightarrow> 'p app \<Rightarrow> 'p app" where
  "addBloodPressureReading reading now s =
     s\<lparr>bloodPressureReadings :=
         sortNewestFirst (bloodPressureReadings s @ [reading\<lparr>id' := ''bp'' @ decimal now\<rparr>])\<rparr>"

definition tagged :: "kind \<Rightarrow> 'p reading \<Rightarrow> 'p logEntry" where
  "tagged k r = \<lparr>id' = id' r, timestamp = timestamp r, others = others r, type' = k\<rparr>"

definition combinedLogs :: "'p app \<Rightarrow> 'p logEntry list" where
  "combinedLogs s =
     sortNewestFirst
       (map (tagged Glucose) (glucoseReadings s)
        @ map (tagged Meal) (meals s)
        @ map (tagged Medication) (medications s)
        @ map (tagged Weight) (weightReadings s)
        @ map (tagged Blood_pressure) (bloodPressureReadings s))"

section \<open>The voice session of the medication modal (\<^verbatim>\<open>MedicationLogModal\<close>)\<close>

text \<open>
  The modal is a React component: its state lives in \<^verbatim>\<open>useState\<close> cells and in refs, and
  its code runs as event handlers, promise continuations and effects. JavaScript runs
  each of them to completion, so the model is a state machine with one step for each:
  a handler is a function from state to state, and an \<^verbatim>\<open>async\<close> function is one such
  function for each stretch between two \<^verbatim>\<open>await\<close>s. What the component does to the
  outside (the microphone, the audio graph, the channel, the extraction service) is
  recorded in a log of effects, in program order.
\<close>

text \<open>The objects the browser and the SDK hand out are told apart by a handle.\<close>

type_synonym handle = nat

text \<open>
  The \<^verbatim>\<open>Blob\<close> that \<^verbatim>\<open>createBlob\<close> builds from a frame of samples. Its \<^verbatim>\<open>data\<close> is the
  base64 text of the samples scaled to 16-bit integers; that conversion is floating-point
  arithmetic and stays outside the model, which takes the text as given.
\<close>

record blob =
  blob_data :: string
  blob_mimeType :: string

definition createBlob :: "string \<Rightarrow> blob" where
  "createBlob encoded = \<lparr>blob_data = encoded, blob_mimeType = ''audio/pcm;rate=16000''\<rparr>"

datatype effect =
    GetUserMedia
  | LiveConnect handle
  | TrackStop handle
  | Disconnect handle
  | ContextClose handle
  | SessionClose handle
  | SendRealtimeInput handle blob
  | ParseMedicationFromText string

text \<open>
  \<^item> \<open>GetUserMedia\<close>: \<^verbatim>\<open>navigator.mediaDevices.getUserMedia({ audio: true })\<close>;
  \<^item> \<open>LiveConnect k\<close>: \<^verbatim>\<open>aiRef.current.live.connect(...)\<close>, which returns the session promise \<open>k\<close>;
  \<^item> \<open>TrackStop m\<close>: \<^verbatim>\<open>streamRef.current.getTracks().forEach(track => track.stop())\<close>;
  \<^item> \<open>Disconnect p\<close>: \<^verbatim>\<open>scriptProcessorRef.current.disconnect()\<close>;
  \<^item> \<open>ContextClose c\<close>: \<^verbatim>\<open>inputAudioContextRef.current.close()\<close>;
  \<^item> \<open>SessionClose k\<close>: \<^verbatim>\<open>sessionRef.current.close()\<close>;
  \<^item> \<open>SendRealtimeInput k b\<close>: \<^verbatim>\<open>session.sendRealtimeInput({ media: pcmBlob })\<close> on the session
    of promise \<open>k\<close>;
  \<^item> \<open>ParseMedicationFromText t\<close>: \<^verbatim>\<open>parseMedicationFromText(text, userMedications)\<close>.
\<close>

datatype voiceStep = say_medication | confirm

text \<open>\<^verbatim>\<open>{ med, quantity, transcript }\<close>, the result the modal asks the user to confirm.\<close>

record medData =
  md_med :: "userMedication option"
  md_quantity :: jnumber
  md_transcript :: string

text \<open>The messages the modal shows in its \<^verbatim>\<open>error\<close> state: none (the empty string),
  "Couldn't understand. Please try saying ...", "A real-time connection error occurred."
  and "Could not access the microphone.".\<close>

datatype message = NoError | CouldNotUnderstand | ConnectionError | NoMicrophone

text \<open>
  A message of the channel, as \<^verbatim>\<open>onmessage\<close> reads it: whether
  \<^verbatim>\<open>message.serverContent?.inputTranscription\<close> is there, and if so its \<^verbatim>\<open>text\<close>, which may
  be \<^verbatim>\<open>undefined\<close>.
\<close>

datatype serverMessage = NoTranscription | InputTranscription "string option"

text \<open>
  The state. The first ten fields are the component's: six \<^verbatim>\<open>useState\<close> cells and four
  refs. The others are the state of the world around it:
  \<^item> \<open>mounted\<close>: the component has not been unmounted;
  \<^item> \<open>closedContexts\<close>: the audio contexts whose \<^verbatim>\<open>state\<close> is \<^verbatim>\<open>'closed'\<close> (by the Web Audio
    specification \<^verbatim>\<open>close()\<close> sets it when it is called, before its promise resolves);
  \<^item> \<open>resolvedSessions\<close>, \<open>rejectedSessions\<close>: the session promises that have settled;
  \<^item> \<open>waitingFrames\<close>: the \<^verbatim>\<open>then\<close> callbacks registered on session promises that are
    still pending, each with the frame it will send, in the order of registration;
  \<^item> \<open>handlers\<close>: for a script processor, the session promise its \<^verbatim>\<open>onaudioprocess\<close>
    handler closes over;
  \<^item> \<open>suspendedStops\<close>: the calls of \<^verbatim>\<open>stopListening\<close> that wait at \<^verbatim>\<open>await close()\<close>;
  \<^item> \<open>effects\<close>: the log.
\<close>

record modal =
  voiceStep :: voiceStep
  medData :: medData
  currentTranscript :: string
  isLoading :: bool
  error :: message
  isListening :: bool
  sessionRef :: "handle option"
  inputAudioContextRef :: "handle option"
  scriptProcessorRef :: "handle option"
  streamRef :: "handle option"
  mounted :: bool
  closedContexts :: "handle list"
  resolvedSessions :: "handle list"
  rejectedSessions :: "handle list"
  waitingFrames :: "(handle \<times> blob) list"
  handlers :: "(handle \<times> handle) list"
  suspendedStops :: nat
  effects :: "effect list"

definition emit :: "effect \<Rightarrow> modal \<Rightarrow> modal" where
  "emit e s = s\<lparr>effects := effects s @ [e]\<rparr>"

subsection \<open>\<^verbatim>\<open>handleParseMedication\<close>\<close>

text \<open>Up to the \<^verbatim>\<open>await\<close>: the two state updates and the call of the extraction service.\<close>

definition handleParseMedication :: "string \<Rightarrow> modal \<Rightarrow> modal" where
  "handleParseMedication text s =
     emit (ParseMedicationFromText text) (s\<lparr>isLoading := True, error := NoError\<rparr>)"

text \<open>After the \<^verbatim>\<open>await\<close>, with the result of the service (which returns and never
  throws), and the \<^verbatim>\<open>finally\<close> block.\<close>

definition handleParseMedication_resume ::
  "string \<Rightarrow> (userMedication \<times> jnumber) option \<Rightarrow> modal \<Rightarrow> modal" where
  "handleParseMedication_resume text result s =
     (case result of
        Some (matchedMed, q) \<Rightarrow>
          s\<lparr>medData := \<lparr>md_med = Some matchedMed, md_quantity = q, md_transcript = text\<rparr>,
            voiceStep := confirm\<rparr>
      | None \<Rightarrow> s\<lparr>error := CouldNotUnderstand\<rparr>)\<lparr>isLoading := False\<rparr>"

subsection \<open>\<^verbatim>\<open>stopListening\<close>\<close>

text \<open>The last statement: \<^verbatim>\<open>if (sessionRef.current) { sessionRef.current.close();
  sessionRef.current = null; }\<close>\<close>

definition closeSession :: "modal \<Rightarrow> modal" where
  "closeSession s =
     (case sessionRef s of
        Some k \<Rightarrow> (emit (SessionClose k) s)\<lparr>sessionRef := None\<rparr>
      | None \<Rightarrow> s)"

text \<open>
  From the call to the \<^verbatim>\<open>await\<close>, or to the end when the audio context is absent or
  closed already and nothing is awaited.
\<close>

definition stopListening :: "modal \<Rightarrow> modal" where
  "stopListening s0 =
     (let s1 = s0\<lparr>isListening := False\<rparr>;
          s2 = (case streamRef s1 of
                  Some m \<Rightarrow> (emit (TrackStop m) s1)\<lparr>streamRef := None\<rparr>
                | None \<Rightarrow> s1);
          s3 = (case scriptProcessorRef s2 of
                  Some p \<Rightarrow> (emit (Disconnect p) s2)\<lparr>scriptProcessorRef := None\<rparr>
                | None \<Rightarrow> s2)
      in case inputAudioContextRef s3 of
           Some c \<Rightarrow>
             if c \<notin> set (closedContexts s3)
             then (emit (ContextClose c) s3)
                    \<lparr>closedContexts := c # closedContexts s3,
                     suspendedStops := suspendedStops s3 + 1\<rparr>
             else closeSession s3
         | None \<Rightarrow> closeSession s3)"

text \<open>After the \<^verbatim>\<open>await\<close>: \<^verbatim>\<open>inputAudioContextRef.current = null;\<close> and the last statement.
  Without a suspended call there is nothing to resume.\<close>

definition stopListening_resume :: "modal \<Rightarrow> modal" where
  "stopListening_resume s =
     (if suspendedStops s = 0 then s
      else closeSession (s\<lparr>inputAudioContextRef := None, suspendedStops := suspendedStops s - 1\<rparr>))"

subsection \<open>\<^verbatim>\<open>startListening\<close> and the callbacks of the channel\<close>

text \<open>From the call to \<^verbatim>\<open>await getUserMedia\<close>. (The creation of the SDK client in \<^verbatim>\<open>aiRef\<close>
  has no effect that the model records.)\<close>

definition startListening :: "modal \<Rightarrow> modal" where
  "startListening s =
     (if isListening s then s
      else emit GetUserMedia (s\<lparr>isListening := True, error := NoError, currentTranscript := []\<rparr>))"

text \<open>After \<^verbatim>\<open>await getUserMedia\<close> with the stream \<open>m\<close>: the ref is set and \<^verbatim>\<open>live.connect\<close>
  is called, which returns the session promise \<open>k\<close>; the function then awaits \<open>k\<close>.\<close>

definition startListening_granted :: "handle \<Rightarrow> handle \<Rightarrow> modal \<Rightarrow> modal" where
  "startListening_granted m k s = emit (LiveConnect k) (s\<lparr>streamRef := Some m\<rparr>)"

text \<open>The \<^verbatim>\<open>catch\<close> block, when \<^verbatim>\<open>getUserMedia\<close> rejects.\<close>

definition startListening_failed :: "modal \<Rightarrow> modal" where
  "startListening_failed s = s\<lparr>error := NoMicrophone, isListening := False\<rparr>"

text \<open>After \<^verbatim>\<open>await sessionPromise\<close>: \<^verbatim>\<open>sessionRef.current = session\<close>. The promise has
  resolved, so the \<^verbatim>\<open>then\<close> callbacks registered on it run next, in their order.\<close>

definition startListening_connected :: "handle \<Rightarrow> modal \<Rightarrow> modal" where
  "startListening_connected k s =
     s\<lparr>sessionRef := Some k,
       resolvedSessions := k # resolvedSessions s,
       waitingFrames := filter (\<lambda>(k', b). k' \<noteq> k) (waitingFrames s),
       effects := effects s
          @ map (\<lambda>(k', b). SendRealtimeInput k b) (filter (\<lambda>(k', b). k' = k) (waitingFrames s))\<rparr>"

text \<open>The session promise rejects: its \<^verbatim>\<open>then\<close> callbacks never run, and the \<^verbatim>\<open>catch\<close> block
  of \<^verbatim>\<open>startListening\<close> does.\<close>

definition startListening_rejected :: "handle \<Rightarrow> modal \<Rightarrow> modal" where
  "startListening_rejected k s =
     startListening_failed
       (s\<lparr>rejectedSessions := k # rejectedSessions s,
          waitingFrames := filter (\<lambda>(k', b). k' \<noteq> k) (waitingFrames s)\<rparr>)"

text \<open>\<^verbatim>\<open>onopen\<close> of the connection with promise \<open>k\<close>: a new audio context \<open>c\<close> and a new
  script processor \<open>p\<close>, whose \<^verbatim>\<open>onaudioprocess\<close> handler closes over \<open>k\<close>.\<close>

definition onopen :: "handle \<Rightarrow> handle \<Rightarrow> handle \<Rightarrow> modal \<Rightarrow> modal" where
  "onopen k c p s =
     s\<lparr>inputAudioContextRef := Some c, scriptProcessorRef := Some p,
       handlers := (p, k) # handlers s\<rparr>"

text \<open>
  \<^verbatim>\<open>onaudioprocess\<close> of the script processor \<open>p\<close>, with the encoded frame:
  \<^verbatim>\<open>sessionPromise.then((session) => { session.sendRealtimeInput({ media: pcmBlob }); })\<close>.
  On a resolved promise the callback runs as soon as the handler returns; on a pending
  one it waits; on a rejected one it never runs.
\<close>

definition onaudioprocess :: "handle \<Rightarrow> string \<Rightarrow> modal \<Rightarrow> modal" where
  "onaudioprocess p encoded s =
     (case map_of (handlers s) p of
        None \<Rightarrow> s
      | Some k \<Rightarrow>
          if k \<in> set (resolvedSessions s) then emit (SendRealtimeInput k (createBlob encoded)) s
          else if k \<in> set (rejectedSessions s) then s
          else s\<lparr>waitingFrames := waitingFrames s @ [(k, createBlob encoded)]\<rparr>)"

text \<open>\<^verbatim>\<open>onmessage\<close>: \<^verbatim>\<open>setCurrentTranscript(prev => prev + text)\<close>. Adding \<^verbatim>\<open>undefined\<close> to a
  string appends the word.\<close>

definition onmessage :: "serverMessage \<Rightarrow> modal \<Rightarrow> modal" where
  "onmessage msg s =
     (case msg of
        NoTranscription \<Rightarrow> s
      | InputTranscription (Some text) \<Rightarrow> s\<lparr>currentTranscript := currentTranscript s @ text\<rparr>
      | InputTranscription None \<Rightarrow>
          s\<lparr>currentTranscript := currentTranscript s @ ''undefined''\<rparr>)"

definition onerror :: "modal \<Rightarrow> modal" where
  "onerror s = stopListening (s\<lparr>error := ConnectionError\<rparr>)"

definition onclose :: "modal \<Rightarrow> modal" where
  "onclose s = s"

subsection \<open>The buttons and the effects\<close>

definition resetVoiceState :: "modal \<Rightarrow> modal" where
  "resetVoiceState s =
     stopListening
       (s\<lparr>voiceStep := say_medication,
          medData := \<lparr>md_med = None, md_quantity = Finite 0, md_transcript = []\<rparr>,
          currentTranscript := [], error := NoError, isLoading := False\<rparr>)"

definition handleToggleListen :: "modal \<Rightarrow> modal" where
  "handleToggleListen s = (if isListening s then stopListening s else startListening s)"

text \<open>
  The effect with the dependencies \<^verbatim>\<open>[isListening, currentTranscript, handleParseMedication]\<close>.
  React runs it after a render in which a dependency has changed; all the state updates
  of one handler are rendered together. \<open>prev\<close> is the state of the render before the
  handler ran, \<open>s\<close> the state the handler left. (\<^verbatim>\<open>handleParseMedication\<close> changes with the
  \<^verbatim>\<open>userMedications\<close> prop only, which the model holds fixed.) An unmounted component
  renders no more.
\<close>

definition parseEffect :: "modal \<Rightarrow> modal \<Rightarrow> modal" where
  "parseEffect prev s =
     (if mounted s
         \<and> (isListening s \<noteq> isListening prev \<or> currentTranscript s \<noteq> currentTranscript prev)
      then (if \<not> isListening s \<and> currentTranscript s \<noteq> []
            then handleParseMedication (currentTranscript s) s else s)
      else s)"

text \<open>
  What can happen to the modal. \<open>Dismiss\<close> is the parent setting \<^verbatim>\<open>isOpen\<close> to false,
  on which the effect with the dependency \<^verbatim>\<open>isOpen\<close> calls \<^verbatim>\<open>resetVoiceState\<close> (and
  \<^verbatim>\<open>resetManualState\<close>, which clears the error message once more); \<open>Unmount\<close> runs the
  cleanup of the effect that registered \<^verbatim>\<open>stopListening\<close>.
\<close>

datatype event =
    ToggleListen
  | StartListening
  | StopListening
  | MicGranted handle handle
  | MicDenied
  | Open handle handle handle
  | Connected handle
  | ConnectFailed handle
  | AudioProcess handle string
  | Message serverMessage
  | ChannelError
  | ChannelClosed
  | ContextClosed
  | ParseResolved string "(userMedication \<times> jnumber) option"
  | ResetVoice
  | Dismiss
  | Unmount

fun dispatch :: "event \<Rightarrow> modal \<Rightarrow> modal" where
  "dispatch ToggleListen s = handleToggleListen s"
| "dispatch StartListening s = startListening s"
| "dispatch StopListening s = stopListening s"
| "dispatch (MicGranted m k) s = startListening_granted m k s"
| "dispatch MicDenied s = startListening_failed s"
| "dispatch (Open k c p) s = onopen k c p s"
| "dispatch (Connected k) s = startListening_connected k s"
| "dispatch (ConnectFailed k) s = startListening_rejected k s"
| "dispatch (AudioProcess p encoded) s = onaudioprocess p encoded s"
| "dispatch (Message msg) s = onmessage msg s"
| "dispatch ChannelError s = onerror s"
| "dispatch ChannelClosed s = onclose s"
| "dispatch ContextClosed s = stopListening_resume s"
| "dispatch (ParseResolved text result) s = handleParseMedication_resume text result s"
| "dispatch ResetVoice s = resetVoiceState s"
| "dispatch Dismiss s = (resetVoiceState s)\<lparr>error := NoError\<rparr>"
| "dispatch Unmount s = stopListening (s\<lparr>mounted := False\<rparr>)"

definition step :: "event \<Rightarrow> modal \<Rightarrow> modal" where
  "step e s = parseEffect s (dispatch e s)"

fun run :: "event list \<Rightarrow> modal \<Rightarrow> modal" where
  "run [] s = s"
| "run (e # es) s = run es (step e s)"

text \<open>The modal after its first render.\<close>

definition initialModal :: modal where
  "initialModal =
     \<lparr>voiceStep = say_medication,
      medData = \<lparr>md_med = None, md_quantity = Finite 0, md_transcript = []\<rparr>,
      currentTranscript = [], isLoading = False, error = NoError, isListening = False,
      sessionRef = None, inputAudioContextRef = None, scriptProcessorRef = None,
      streamRef = None, mounted = True, closedContexts = [], resolvedSessions = [],
      rejectedSessions = [], waitingFrames = [], handlers = [], suspendedStops = 0,
      effects = []\<rparr>"

section \<open>The specification's notions, and concrete inputs\<close>

text \<open>
  The definitions of this section are not translations of the code. The first group
  states notions of the specification, so that the code can be compared with them;
  the second group fixes concrete environments and inputs, on which the theorems are
  evaluated.
\<close>

text \<open>The specification's "case-insensitive exact match" of a returned name with a catalog
  entry: the two names are equal once both are lower-cased.\<close>

definition ci_match :: "js_env \<Rightarrow> string \<Rightarrow> userMedication \<Rightarrow> bool" where
  "ci_match env returned m \<longleftrightarrow> toLowerCase env (name m) = toLowerCase env returned"

text \<open>The specification's "transport or parsing failure": the backend call rejects, the
  response carries no text, or the text is not JSON.\<close>

definition requestFails :: "js_env \<Rightarrow> request \<Rightarrow> request list \<Rightarrow> bool" where
  "requestFails env rq reqs =
     (case ai env reqs rq of
        Inl e \<Rightarrow> True
      | Inr None \<Rightarrow> True
      | Inr (Some text) \<Rightarrow> (case JSON_parse env (trim env text) of Inl e \<Rightarrow> True | Inr v \<Rightarrow> False))"

text \<open>The specification's "every required field of the target schema is present with the
  correct runtime type": the run-time type a schema type stands for, and the check of
  the \<^verbatim>\<open>required\<close> fields of an object schema.\<close>

fun hasType :: "schema \<Rightarrow> jsval \<Rightarrow> bool" where
  "hasType BOOLEAN v = (typeof v = ''boolean'')"
| "hasType NUMBER v = (typeof v = ''number'')"
| "hasType STRING v = (typeof v = ''string'')"
| "hasType (ARRAY s) v = isArray v"
| "hasType (OBJECT props required) v = (case v of Obj kvs \<Rightarrow> True | _ \<Rightarrow> False)"

fun requiredFieldsTyped :: "schema \<Rightarrow> jsval \<Rightarrow> bool" where
  "requiredFieldsTyped (OBJECT props required) v =
     list_all (\<lambda>k. case map_of props k of
                      Some ty \<Rightarrow> hasType ty (getProp v k)
                    | None \<Rightarrow> False) required"
| "requiredFieldsTyped sch v = False"

text \<open>\<^verbatim>\<open>toLowerCase\<close> on ASCII text.\<close>

definition asciiLower :: "string \<Rightarrow> string" where
  "asciiLower s =
     map (\<lambda>c. case map_of (zip ''ABCDEFGHIJKLMNOPQRSTUVWXYZ'' ''abcdefghijklmnopqrstuvwxyz'') c of
                 Some d \<Rightarrow> d
               | None \<Rightarrow> c) s"

text \<open>An environment whose backend answers every request with a text that parses to the
  given outcome, and one whose backend rejects every request.\<close>

definition answeringEnv :: "js_error + jsval \<Rightarrow> js_env" where
  "answeringEnv outcome =
     \<lparr>ai = (\<lambda>reqs rq. Inr (Some [])), trim = (\<lambda>s. s), JSON_parse = (\<lambda>s. outcome),
      toLowerCase = asciiLower\<rparr>"

definition offlineEnv :: js_env where
  "offlineEnv =
     \<lparr>ai = (\<lambda>reqs rq. Inl (Error ''fetch failed'')), trim = (\<lambda>s. s),
      JSON_parse = (\<lambda>s. Inl SyntaxError), toLowerCase = asciiLower\<rparr>"

definition metformin :: userMedication where
  "metformin = \<lparr>um_id = ''um1'', name = ''Metformin'', dosage = 500, unit = ''mg''\<rparr>"

text \<open>A backend answer that conforms to the glucose schema, and one whose value is a
  string and whose context is missing.\<close>

definition goodGlucose :: jsval where
  "goodGlucose = Obj [(''value'', Num (Finite 150)), (''unit'', Str ''mg/dL''),
                      (''context'', Str ''after_meal'')]"

definition badGlucose :: jsval where
  "badGlucose = Obj [(''value'', Str ''150''), (''unit'', Str ''mg/dL'')]"

text \<open>Backend answers to the question whether a photo shows a glucose meter: no; and yes,
  with no reading in the answer to the extraction request that follows.\<close>

definition notAMeter :: jsval where
  "notAMeter = Obj [(''isMeter'', Bool False)]"

definition unreadableMeter :: jsval where
  "unreadableMeter = Obj [(''isMeter'', Bool True)]"

subsection \<open>Appends to the reading lists\<close>

text \<open>An append of a reading of one of the five kinds, with the value of
  \<^verbatim>\<open>Date.now()\<close> at the call, and the run of a sequence of appends: an interleaving of
  calls of the five add functions.\<close>

datatype 'p append = Append kind "'p reading" nat

fun applyAppend :: "'p append \<Rightarrow> 'p app \<Rightarrow> 'p app" where
  "applyAppend (Append Glucose r now) s = addGlucoseReading r now s"
| "applyAppend (Append Meal r now) s = snd (addMeal r now s)"
| "applyAppend (Append Medication r now) s = addMedication r now s"
| "applyAppend (Append Weight r now) s = addWeightReading r now s"
| "applyAppend (Append Blood_pressure r now) s = addBloodPressureReading r now s"

fun runAppends :: "'p append list \<Rightarrow> 'p app \<Rightarrow> 'p app" where
  "runAppends [] s = s"
| "runAppends (a # as) s = runAppends as (applyAppend a s)"

definition emptyApp :: "'p app" where
  "emptyApp = \<lparr>glucoseReadings = [], meals = [], medications = [], weightReadings = [],
               bloodPressureReadings = []\<rparr>"

text \<open>The list of a kind, the id prefix of a kind, and the reading an append stores.\<close>

fun readingsOf :: "kind \<Rightarrow> 'p app \<Rightarrow> 'p reading list" where
  "readingsOf Glucose s = glucoseReadings s"
| "readingsOf Meal s = meals s"
| "readingsOf Medication s = medications s"
| "readingsOf Weight s = weightReadings s"
| "readingsOf Blood_pressure s = bloodPressureReadings s"

fun prefixOf :: "kind \<Rightarrow> string" where
  "prefixOf Glucose = ''g''"
| "prefixOf Meal = ''m''"
| "prefixOf Medication = ''med''"
| "prefixOf Weight = ''w''"
| "prefixOf Blood_pressure = ''bp''"

fun stored :: "'p append \<Rightarrow> 'p reading" where
  "stored (Append k r now) = r\<lparr>id' := prefixOf k @ decimal now\<rparr>"

fun kindOf :: "'p append \<Rightarrow> kind" where
  "kindOf (Append k r now) = k"

text \<open>The readings of kind \<open>k\<close> that a sequence of appends stores, in the order of the
  appends.\<close>

definition appended :: "kind \<Rightarrow> 'p append list \<Rightarrow> 'p reading list" where
  "appended k as = map stored (filter (\<lambda>a. kindOf a = k) as)"

text \<open>All entries in the order of their insertion: what the specification's "ties broken
  by insertion order" sorts.\<close>

definition insertionOrder :: "'p append list \<Rightarrow> 'p logEntry list" where
  "insertionOrder as = map (\<lambda>a. tagged (kindOf a) (stored a)) as"

text \<open>The entries grouped by kind, in the order in which \<^verbatim>\<open>combinedLogs\<close> spreads the five
  lists, and within a kind in the order of insertion (after the entries the list held
  before).\<close>

definition byKindThenInsertion :: "'p app \<Rightarrow> 'p append list \<Rightarrow> 'p logEntry list" where
  "byKindThenInsertion s as =
     map (tagged Glucose) (readingsOf Glucose s @ appended Glucose as)
     @ map (tagged Meal) (readingsOf Meal s @ appended Meal as)
     @ map (tagged Medication) (readingsOf Medication s @ appended Medication as)
     @ map (tagged Weight) (readingsOf Weight s @ appended Weight as)
     @ map (tagged Blood_pressure) (readingsOf Blood_pressure s @ appended Blood_pressure as)"

text \<open>Strictly descending and descending timestamps.\<close>

fun strictlyDescending :: "('p, 'z) reading_scheme list \<Rightarrow> bool" where
  "strictlyDescending (x # y # ys) = (timestamp y < timestamp x \<and> strictlyDescending (y # ys))"
| "strictlyDescending xs = True"

fun descending :: "('p, 'z) reading_scheme list \<Rightarrow> bool" where
  "descending (x # y # ys) = (timestamp y \<le> timestamp x \<and> descending (y # ys))"
| "descending xs = True"

text \<open>Two lists hold the same entries and agree on the order of the entries of every
  timestamp: a stable sort by timestamp cannot tell them apart.\<close>

definition sameTies ::
  "('p, 'z) reading_scheme list \<Rightarrow> ('p, 'z) reading_scheme list \<Rightarrow> bool" where
  "sameTies xs ys \<longleftrightarrow>
     mset xs = mset ys
     \<and> (\<forall>t. filter (\<lambda>e. timestamp e = t) xs = filter (\<lambda>e. timestamp e = t) ys)"

text \<open>A meal and a glucose reading logged for the same instant, the meal first.\<close>

definition mealThenGlucose :: "unit append list" where
  "mealThenGlucose =
     [Append Meal \<lparr>id' = [], timestamp = 5, others = ()\<rparr> 1,
      Append Glucose \<lparr>id' = [], timestamp = 5, others = ()\<rparr> 2]"

subsection \<open>Reading the log of the voice session\<close>

text \<open>The releases among the effects, and the texts handed to the extraction service.\<close>

fun isRelease :: "effect \<Rightarrow> bool" where
  "isRelease (TrackStop m) = True"
| "isRelease (Disconnect p) = True"
| "isRelease (ContextClose c) = True"
| "isRelease (SessionClose k) = True"
| "isRelease e = False"

definition releases :: "effect list \<Rightarrow> effect list" where
  "releases es = filter isRelease es"


text \<open>
  The releases that are due in a state: one for each resource a ref holds (for the audio
  context, unless it is closed already), in the order in which \<^verbatim>\<open>stopListening\<close> goes through
  the refs: the microphone stream, the script processor and the audio context (the audio
  processing graph), the channel session.
\<close>

definition held :: "modal \<Rightarrow> effect list" where
  "held s =
     (case streamRef s of Some m \<Rightarrow> [TrackStop m] | None \<Rightarrow> [])
     @ (case scriptProcessorRef s of Some p \<Rightarrow> [Disconnect p] | None \<Rightarrow> [])
     @ (case inputAudioContextRef s of
          Some c \<Rightarrow> if c \<in> set (closedContexts s) then [] else [ContextClose c]
        | None \<Rightarrow> [])
     @ (case sessionRef s of Some k \<Rightarrow> [SessionClose k] | None \<Rightarrow> [])"

text \<open>A call of \<^verbatim>\<open>stopListening\<close> or the resumption of a suspended one.\<close>

fun isStop :: "event \<Rightarrow> bool" where
  "isStop StopListening = True"
| "isStop ContextClosed = True"
| "isStop e = False"





text \<open>A frame is sent on a session after \<^verbatim>\<open>stopListening\<close> has closed that session.\<close>

fun sendsTo :: "handle \<Rightarrow> effect list \<Rightarrow> bool" where
  "sendsTo k [] = False"
| "sendsTo k (SendRealtimeInput k' b # es) = (k' = k \<or> sendsTo k es)"
| "sendsTo k (e # es) = sendsTo k es"

fun sentAfterClose :: "effect list \<Rightarrow> bool" where
  "sentAfterClose [] = False"
| "sentAfterClose (SessionClose k # es) = (sendsTo k es \<or> sentAfterClose es)"
| "sentAfterClose (e # es) = sentAfterClose es"

text \<open>
  Sessions of the modal, from its first render. In each but the last two the microphone
  is granted (stream 1), the connection opens (audio context 1, script processor 1) and
  its session promise 1 resolves. In the first, three fragments arrive between frames,
  and the user stops. In the second, one more fragment arrives after that stop, before
  the stop has closed the channel. In the third a frame is delivered after the stop has
  completed. In the last two the modal is dismissed, or unmounted, while the session is
  listening and still acquiring its resources: the pending steps of \<^verbatim>\<open>startListening\<close>
  run afterwards.
\<close>

definition connecting :: "event list" where
  "connecting = [StartListening, MicGranted 1 1, Open 1 1 1, Connected 1]"



definition stragglerSession :: "event list" where
  "stragglerSession =
     connecting @ [AudioProcess 1 ''AAAA'', StopListening, ContextClosed, AudioProcess 1 ''AAAB'']"



text \<open>The session is idle: nothing is held, nothing is listening, no stop is under way.\<close>

definition idle :: "modal \<Rightarrow> bool" where
  "idle s \<longleftrightarrow>
     \<not> isListening s \<and> streamRef s = None \<and> scriptProcessorRef s = None
     \<and> inputAudioContextRef s = None \<and> sessionRef s = None \<and> suspendedStops s = 0"

text \<open>The part of the state that the releases depend on: the four refs, the closed
  contexts, the suspended stops, and the releases so far.\<close>

definition resources ::
  "modal \<Rightarrow> (handle option \<times> handle option \<times> handle option \<times> handle option)
             \<times> handle list \<times> nat \<times> effect list" where
  "resources s =
     ((streamRef s, scriptProcessorRef s, inputAudioContextRef s, sessionRef s),
      closedContexts s, suspendedStops s, releases (effects s))"

text \<open>What one call of \<^verbatim>\<open>stopListening\<close> releases before it returns or suspends.\<close>

definition stopNow :: "modal \<Rightarrow> effect list" where
  "stopNow s =
     (case streamRef s of Some m \<Rightarrow> [TrackStop m] | None \<Rightarrow> [])
     @ (case scriptProcessorRef s of Some p \<Rightarrow> [Disconnect p] | None \<Rightarrow> [])
     @ (case inputAudioContextRef s of
          Some c \<Rightarrow> if c \<in> set (closedContexts s)
                    then (case sessionRef s of Some k \<Rightarrow> [SessionClose k] | None \<Rightarrow> [])
                    else [ContextClose c]
        | None \<Rightarrow> (case sessionRef s of Some k \<Rightarrow> [SessionClose k] | None \<Rightarrow> []))"

section \<open>Properties of the extraction service\<close>

subsection \<open>Shared facts\<close>

lemma fetchJson_log: "snd (fetchJson env rq reqs) = reqs @ [rq]"
  by (simp add: fetchJson_def generateContent_def split: sum.split option.split)

lemma fetchJson_fails: "requestFails env rq reqs \<longleftrightarrow> (\<exists>e. fst (fetchJson env rq reqs) = Inl e)"
proof (cases "ai env reqs rq")
  case (Inl e)
  then show ?thesis by (simp add: requestFails_def fetchJson_def generateContent_def)
next
  case (Inr resp)
  show ?thesis
  proof (cases resp)
    case None
    with Inr show ?thesis by (simp add: requestFails_def fetchJson_def generateContent_def)
  next
    case (Some t)
    with Inr show ?thesis
      by (cases "JSON_parse env (trim env t)")
         (simp_all add: requestFails_def fetchJson_def generateContent_def)
  qed
qed

lemma try_catch_cases:
  "try_catch body v reqs =
     (case fst (body reqs) of Inl e \<Rightarrow> Inr v | Inr r \<Rightarrow> Inr r, snd (body reqs))"
  by (cases "body reqs") (simp add: try_catch_def split: sum.split)

lemma classifyBody_log: "snd (classifyBody env rq field reqs) = reqs @ [rq]"
  using fetchJson_log [of env rq reqs]
  by (cases "fetchJson env rq reqs") (simp add: classifyBody_def split: sum.split)

lemma classify_returns:
  "\<exists>v. try_catch (classifyBody env rq field) (Bool False) reqs = (Inr v, reqs @ [rq])"
  by (simp add: try_catch_cases classifyBody_log split: sum.split)

lemma classify_failsafe:
  assumes "requestFails env rq reqs"
  shows "fst (try_catch (classifyBody env rq field) (Bool False) reqs) = Inr (Bool False)"
proof -
  from assms obtain e where "fst (fetchJson env rq reqs) = Inl e"
    by (auto simp: fetchJson_fails)
  then have "fst (classifyBody env rq field reqs) = Inl e"
    by (cases "fetchJson env rq reqs") (simp add: classifyBody_def)
  then show ?thesis by (simp add: try_catch_cases)
qed

lemma extractBody_log: "snd (extractBody env rq valid reqs) = reqs @ [rq]"
  using fetchJson_log [of env rq reqs]
  by (cases "fetchJson env rq reqs") (simp add: extractBody_def split: sum.split)

lemma extract_result:
  "try_catch (extractBody env rq valid) None reqs =
     (Inr (case fst (fetchJson env rq reqs) of
             Inl e \<Rightarrow> None
           | Inr parsed \<Rightarrow> if valid parsed then Some parsed else None),
      reqs @ [rq])"
  using fetchJson_log [of env rq reqs]
  by (cases "fetchJson env rq reqs")
     (simp add: try_catch_cases extractBody_def split: sum.split)

lemma find_first_None: "find_first P xs = None \<longleftrightarrow> (\<forall>x \<in> set xs. \<not> P x)"
  by (induction xs) auto

lemma find_first_Some:
  "find_first P xs = Some m \<Longrightarrow>
     \<exists>pre post. xs = pre @ m # post \<and> P m \<and> (\<forall>x \<in> set pre. \<not> P x)"
proof (induction xs)
  case Nil
  then show ?case by simp
next
  case (Cons x xs)
  show ?case
  proof (cases "P x")
    case True
    with Cons.prems have "x # xs = [] @ m # xs \<and> P m \<and> (\<forall>y \<in> set []. \<not> P y)" by simp
    then show ?thesis by blast
  next
    case False
    with Cons obtain pre post where "xs = pre @ m # post" "P m" "\<forall>y \<in> set pre. \<not> P y"
      by auto
    with False have "x # xs = (x # pre) @ m # post \<and> P m \<and> (\<forall>y \<in> set (x # pre). \<not> P y)"
      by simp
    then show ?thesis by blast
  qed
qed

lemma matchBody_parsed:
  assumes "fetchJson env (textRequest (MedicationFromText (map name ums) t) medicationSchema) reqs
             = (Inr parsed, reqs')"
    and "getProp parsed ''name'' = Str n" and "getProp parsed ''quantity'' = Num q"
  shows "matchBody env t ums reqs =
           (Inr (if gt0 q then map_option (\<lambda>m. (m, q)) (find_first (ci_match env n) ums) else None),
            reqs')"
proof -
  from assms(2) have "truthy parsed" by (cases parsed) auto
  moreover have "(\<lambda>m. toLowerCase env (name m) = toLowerCase env n) = ci_match env n"
    by (rule ext) (simp add: ci_match_def)
  ultimately show ?thesis using assms
    by (simp add: matchBody_def split: option.split)
qed

lemma glucoseValid_typed: "glucoseValid v \<Longrightarrow> requiredFieldsTyped glucoseSchema v"
  by (simp add: glucoseValid_def glucoseSchema_def)

lemma weightValid_typed: "weightValid v \<Longrightarrow> requiredFieldsTyped weightSchema v"
  by (auto simp: weightValid_def weightSchema_def)

lemma bloodPressureValid_typed:
  "bloodPressureValid v \<Longrightarrow> requiredFieldsTyped bloodPressureSchema v"
  by (simp add: bloodPressureValid_def bloodPressureSchema_def)

lemma extract_sound:
  assumes "\<And>v. valid v \<Longrightarrow> requiredFieldsTyped sch v"
  shows "(\<exists>r. fst (try_catch (extractBody env rq valid) None reqs) = Inr r)
       \<and> (\<forall>p. fst (try_catch (extractBody env rq valid) None reqs) = Inr (Some p)
              \<longrightarrow> fst (fetchJson env rq reqs) = Inr p \<and> requiredFieldsTyped sch p)
       \<and> (\<forall>p. fst (fetchJson env rq reqs) = Inr p \<and> \<not> requiredFieldsTyped sch p
              \<longrightarrow> fst (try_catch (extractBody env rq valid) None reqs) = Inr None)
       \<and> (requestFails env rq reqs
              \<longrightarrow> fst (try_catch (extractBody env rq valid) None reqs) = Inr None)"
proof (cases "fst (fetchJson env rq reqs)")
  case (Inl e)
  then have "requestFails env rq reqs" by (auto simp: fetchJson_fails)
  with Inl show ?thesis by (simp add: extract_result)
next
  case (Inr parsed)
  then have "\<not> requestFails env rq reqs" by (simp add: fetchJson_fails)
  with Inr assms [of parsed] show ?thesis by (auto simp: extract_result)
qed

lemma afterClassify_cases:
  assumes "classify reqs = (Inr v, reqs1)"
    and "\<exists>r. fst (rest reqs1) = Inr r"
  shows "((\<exists>e. fst (afterClassify classify message rest reqs) = Inl e) \<longleftrightarrow> \<not> truthy v)
       \<and> (\<not> truthy v \<longrightarrow> afterClassify classify message rest reqs = (Inl (Error message), reqs1))
       \<and> (truthy v \<longrightarrow> afterClassify classify message rest reqs = rest reqs1)"
  using assms by (auto simp: afterClassify_def)

lemma ci_match_metformin: "ci_match (answeringEnv outcome) ''metformin'' metformin"
  by (simp add: ci_match_def answeringEnv_def metformin_def asciiLower_def)

lemma ci_match_aspirin: "\<not> ci_match (answeringEnv outcome) ''Aspirin'' metformin"
  by (simp add: ci_match_def answeringEnv_def metformin_def asciiLower_def)

lemma fetchJson_answering:
  "fetchJson (answeringEnv (Inr v)) rq reqs = (Inr v, reqs @ [rq])"
  by (simp add: fetchJson_def generateContent_def answeringEnv_def)

lemma requestFails_offline: "requestFails offlineEnv rq reqs"
  by (simp add: requestFails_def offlineEnv_def)

lemma requestFails_syntax: "requestFails (answeringEnv (Inl SyntaxError)) rq reqs"
  by (simp add: requestFails_def answeringEnv_def)

lemma image_extraction:
  assumes c: "classify = try_catch (classifyBody env crq field) (Bool False)"
  shows "\<exists>v. classify reqs = (Inr v, reqs @ [crq])
           \<and> (if truthy v
               then afterClassify classify message (try_catch (extractBody env irq valid) None) reqs
                    = (Inr (case fst (fetchJson env irq (reqs @ [crq])) of
                              Inl e \<Rightarrow> None
                            | Inr parsed \<Rightarrow> if valid parsed then Some parsed else None),
                       reqs @ [crq, irq])
               else afterClassify classify message (try_catch (extractBody env irq valid) None) reqs
                    = (Inl (Error message), reqs @ [crq]))"
proof -
  from classify_returns [of env crq field reqs] c
  obtain v where v: "classify reqs = (Inr v, reqs @ [crq])" by auto
  then have "if truthy v
               then afterClassify classify message (try_catch (extractBody env irq valid) None) reqs
                    = (Inr (case fst (fetchJson env irq (reqs @ [crq])) of
                              Inl e \<Rightarrow> None
                            | Inr parsed \<Rightarrow> if valid parsed then Some parsed else None),
                       reqs @ [crq, irq])
               else afterClassify classify message (try_catch (extractBody env irq valid) None) reqs
                    = (Inl (Error message), reqs @ [crq])"
    by (simp add: afterClassify_def extract_result)
  with v show ?thesis by blast
qed

lemma classify_answering:
  "isImageOfGlucoseMeter (answeringEnv (Inr (Obj kvs))) img mt reqs
     = (Inr (getProp (Obj kvs) ''isMeter''), reqs @ [classifyRequest img mt AskGlucoseMeter ''isMeter''])"
  by (simp add: isImageOfGlucoseMeter_def try_catch_cases classifyBody_def fetchJson_answering)

subsection \<open>The claims\<close>

text \<open>
  C10. Called with an empty medication catalog, \<^verbatim>\<open>parseMedicationFromText\<close> returns
  \<^verbatim>\<open>null\<close> at once: the log of backend requests is the one it was called with, so no
  request has been issued, whatever the transcript and the backend.
\<close>

theorem parseMedicationFromText_empty_catalog:
  "parseMedicationFromText env transcript [] reqs = (Inr None, reqs)"
  by (simp add: parseMedicationFromText_def)

text \<open>
  C1. For a non-empty catalog and a backend answer that carries a name \<open>n\<close> and a numeric
  quantity \<open>q\<close>: the result is \<^verbatim>\<open>null\<close> whenever no catalog entry matches \<open>n\<close>
  case-insensitively or \<open>q \<le> 0\<close>; and when some entry matches and \<open>q > 0\<close>, the result is
  a matching entry (the first one of the catalog) together with \<open>q\<close>.
\<close>

theorem parseMedicationFromText_matching:
  assumes "userMedications \<noteq> []"
    and "fetchJson env
           (textRequest (MedicationFromText (map name userMedications) transcript) medicationSchema)
           reqs = (Inr parsed, reqs')"
    and "getProp parsed ''name'' = Str n"
    and "getProp parsed ''quantity'' = Num q"
  shows "((\<forall>m \<in> set userMedications. \<not> ci_match env n m) \<or> \<not> gt0 q
            \<longrightarrow> fst (parseMedicationFromText env transcript userMedications reqs) = Inr None)
       \<and> ((\<exists>m \<in> set userMedications. ci_match env n m) \<and> gt0 q
            \<longrightarrow> (\<exists>pre m post. userMedications = pre @ m # post \<and> ci_match env n m
                    \<and> (\<forall>x \<in> set pre. \<not> ci_match env n x)
                    \<and> fst (parseMedicationFromText env transcript userMedications reqs)
                        = Inr (Some (m, q))))"
proof -
  let ?r = "fst (parseMedicationFromText env transcript userMedications reqs)"
  have r: "?r = Inr (if gt0 q then map_option (\<lambda>m. (m, q)) (find_first (ci_match env n) userMedications)
                     else None)"
    using assms(1) matchBody_parsed [OF assms(2-4)]
    by (simp add: parseMedicationFromText_def try_catch_cases)
  have a: "(\<forall>m \<in> set userMedications. \<not> ci_match env n m) \<or> \<not> gt0 q \<longrightarrow> ?r = Inr None"
    using r find_first_None [of "ci_match env n" userMedications] by auto
  have b: "(\<exists>m \<in> set userMedications. ci_match env n m) \<and> gt0 q
            \<longrightarrow> (\<exists>pre m post. userMedications = pre @ m # post \<and> ci_match env n m
                    \<and> (\<forall>x \<in> set pre. \<not> ci_match env n x) \<and> ?r = Inr (Some (m, q)))"
  proof
    assume h: "(\<exists>m \<in> set userMedications. ci_match env n m) \<and> gt0 q"
    then have "find_first (ci_match env n) userMedications \<noteq> None"
      by (simp add: find_first_None)
    then obtain m where m: "find_first (ci_match env n) userMedications = Some m" by blast
    then obtain pre post where "userMedications = pre @ m # post" "ci_match env n m"
      "\<forall>x \<in> set pre. \<not> ci_match env n x"
      using find_first_Some [of "ci_match env n" userMedications m] by blast
    moreover have "?r = Inr (Some (m, q))" using r m h by simp
    ultimately show "\<exists>pre m post. userMedications = pre @ m # post \<and> ci_match env n m
                    \<and> (\<forall>x \<in> set pre. \<not> ci_match env n x) \<and> ?r = Inr (Some (m, q))"
      by blast
  qed
  from a b show ?thesis by blast
qed

text \<open>On the specification's example: the backend answers "Metformin two pills" with the
  name in lower case and the quantity 2, and "Aspirin one" with a name the catalog does
  not hold.\<close>

theorem parseMedicationFromText_matching_witness:
  "fst (parseMedicationFromText
          (answeringEnv (Inr (Obj [(''name'', Str ''metformin''), (''quantity'', Num (Finite 2))])))
          ''Metformin two pills'' [metformin] []) = Inr (Some (metformin, Finite 2))
   \<and> fst (parseMedicationFromText
          (answeringEnv (Inr (Obj [(''name'', Str ''Aspirin''), (''quantity'', Num (Finite 1))])))
          ''Aspirin one'' [metformin] []) = Inr None"
proof
  let ?p = "Obj [(''name'', Str ''metformin''), (''quantity'', Num (Finite 2))]"
  have "(\<exists>m \<in> set [metformin]. ci_match (answeringEnv (Inr ?p)) ''metformin'' m) \<and> gt0 (Finite 2)"
    by (simp add: ci_match_metformin)
  with parseMedicationFromText_matching
         [of "[metformin]" "answeringEnv (Inr ?p)" "''Metformin two pills''" "[]" ?p _
             "''metformin''" "Finite 2", OF _ fetchJson_answering]
  obtain pre m post where "[metformin] = pre @ m # post"
    and r: "fst (parseMedicationFromText (answeringEnv (Inr ?p)) ''Metformin two pills'' [metformin] [])
            = Inr (Some (m, Finite 2))"
    by auto
  then have "m = metformin" by (cases pre) auto
  with r show "fst (parseMedicationFromText (answeringEnv (Inr ?p)) ''Metformin two pills''
                 [metformin] []) = Inr (Some (metformin, Finite 2))"
    by simp
next
  let ?p = "Obj [(''name'', Str ''Aspirin''), (''quantity'', Num (Finite 1))]"
  show "fst (parseMedicationFromText (answeringEnv (Inr ?p)) ''Aspirin one'' [metformin] [])
        = Inr None"
    using parseMedicationFromText_matching
         [of "[metformin]" "answeringEnv (Inr ?p)" "''Aspirin one''" "[]" ?p _
             "''Aspirin''" "Finite 1", OF _ fetchJson_answering]
    by (simp add: ci_match_aspirin)
qed

text \<open>
  C2. Each of the four classify operations returns a value and never throws, whatever the
  image, the MIME type and the backend, having issued its one request; and when the
  request fails (the call rejects, the response has no text, or the text does not parse)
  the value is \<^verbatim>\<open>false\<close>.
\<close>

theorem classify_never_raises:
  "(\<exists>v. isImageOfGlucoseMeter env base64Image mimeType reqs
          = (Inr v, reqs @ [classifyRequest base64Image mimeType AskGlucoseMeter ''isMeter'']))
   \<and> (\<exists>v. isImageOfFood env base64Image mimeType reqs
          = (Inr v, reqs @ [classifyRequest base64Image mimeType AskFood ''isFood'']))
   \<and> (\<exists>v. isImageOfWeightScale env base64Image mimeType reqs
          = (Inr v, reqs @ [classifyRequest base64Image mimeType AskWeightScale ''isScale'']))
   \<and> (\<exists>v. isImageOfBloodPressureMonitor env base64Image mimeType reqs
          = (Inr v, reqs @ [classifyRequest base64Image mimeType AskBloodPressureMonitor ''isMonitor'']))
   \<and> (requestFails env (classifyRequest base64Image mimeType AskGlucoseMeter ''isMeter'') reqs
        \<longrightarrow> fst (isImageOfGlucoseMeter env base64Image mimeType reqs) = Inr (Bool False))
   \<and> (requestFails env (classifyRequest base64Image mimeType AskFood ''isFood'') reqs
        \<longrightarrow> fst (isImageOfFood env base64Image mimeType reqs) = Inr (Bool False))
   \<and> (requestFails env (classifyRequest base64Image mimeType AskWeightScale ''isScale'') reqs
        \<longrightarrow> fst (isImageOfWeightScale env base64Image mimeType reqs) = Inr (Bool False))
   \<and> (requestFails env (classifyRequest base64Image mimeType AskBloodPressureMonitor ''isMonitor'') reqs
        \<longrightarrow> fst (isImageOfBloodPressureMonitor env base64Image mimeType reqs) = Inr (Bool False))"
  unfolding isImageOfGlucoseMeter_def isImageOfFood_def isImageOfWeightScale_def
    isImageOfBloodPressureMonitor_def
  using classify_returns classify_failsafe by blast

text \<open>A backend that is unreachable, and one that answers with text that is not JSON.\<close>

theorem classify_never_raises_witness:
  "fst (isImageOfGlucoseMeter offlineEnv ''aGVsbG8='' ''image/jpeg'' []) = Inr (Bool False)
   \<and> fst (isImageOfWeightScale (answeringEnv (Inl SyntaxError)) ''aGVsbG8='' ''image/png'' [])
       = Inr (Bool False)"
  using classify_never_raises [of offlineEnv "''aGVsbG8=''" "''image/jpeg''" "[]"]
    classify_never_raises [of "answeringEnv (Inl SyntaxError)" "''aGVsbG8=''" "''image/png''" "[]"]
  by (simp add: requestFails_offline requestFails_syntax)

text \<open>
  C3. Each text extraction returns a value and never throws. When it returns a non-null
  value, that value is the parsed response and every required field of the operation's
  schema is present in it with the run-time type the schema names; and it returns
  \<^verbatim>\<open>null\<close> for a response in which a required field is missing or has another type,
  as it does when the request fails.
\<close>

theorem text_extraction_validates:
  "((\<exists>r. fst (parseGlucoseReadingFromText env transcript reqs) = Inr r)
    \<and> (\<forall>p. fst (parseGlucoseReadingFromText env transcript reqs) = Inr (Some p)
          \<longrightarrow> fst (fetchJson env (textRequest (GlucoseFromText transcript) glucoseSchema) reqs) = Inr p
              \<and> requiredFieldsTyped glucoseSchema p)
    \<and> (\<forall>p. fst (fetchJson env (textRequest (GlucoseFromText transcript) glucoseSchema) reqs) = Inr p
            \<and> \<not> requiredFieldsTyped glucoseSchema p
          \<longrightarrow> fst (parseGlucoseReadingFromText env transcript reqs) = Inr None)
    \<and> (requestFails env (textRequest (GlucoseFromText transcript) glucoseSchema) reqs
          \<longrightarrow> fst (parseGlucoseReadingFromText env transcript reqs) = Inr None))
   \<and> ((\<exists>r. fst (parseWeightFromText env transcript reqs) = Inr r)
    \<and> (\<forall>p. fst (parseWeightFromText env transcript reqs) = Inr (Some p)
          \<longrightarrow> fst (fetchJson env (textRequest (WeightFromText transcript) weightSchema) reqs) = Inr p
              \<and> requiredFieldsTyped weightSchema p)
    \<and> (\<forall>p. fst (fetchJson env (textRequest (WeightFromText transcript) weightSchema) reqs) = Inr p
            \<and> \<not> requiredFieldsTyped weightSchema p
          \<longrightarrow> fst (parseWeightFromText env transcript reqs) = Inr None)
    \<and> (requestFails env (textRequest (WeightFromText transcript) weightSchema) reqs
          \<longrightarrow> fst (parseWeightFromText env transcript reqs) = Inr None))
   \<and> ((\<exists>r. fst (parseBloodPressureFromText env transcript reqs) = Inr r)
    \<and> (\<forall>p. fst (parseBloodPressureFromText env transcript reqs) = Inr (Some p)
          \<longrightarrow> fst (fetchJson env (textRequest (BloodPressureFromText transcript) bloodPressureSchema) reqs)
                = Inr p
              \<and> requiredFieldsTyped bloodPressureSchema p)
    \<and> (\<forall>p. fst (fetchJson env (textRequest (BloodPressureFromText transcript) bloodPressureSchema) reqs)
              = Inr p
            \<and> \<not> requiredFieldsTyped bloodPressureSchema p
          \<longrightarrow> fst (parseBloodPressureFromText env transcript reqs) = Inr None)
    \<and> (requestFails env (textRequest (BloodPressureFromText transcript) bloodPressureSchema) reqs
          \<longrightarrow> fst (parseBloodPressureFromText env transcript reqs) = Inr None))"
  unfolding parseGlucoseReadingFromText_def parseWeightFromText_def parseBloodPressureFromText_def
  by (intro conjI extract_sound glucoseValid_typed weightValid_typed bloodPressureValid_typed)

text \<open>A response whose value is a string and whose context is missing, an unreachable
  backend, and a response that conforms.\<close>

theorem text_extraction_validates_witness:
  "fst (parseGlucoseReadingFromText (answeringEnv (Inr badGlucose)) ''sugar is 150'' []) = Inr None
   \<and> fst (parseGlucoseReadingFromText offlineEnv ''sugar is 150'' []) = Inr None
   \<and> requiredFieldsTyped glucoseSchema goodGlucose
   \<and> fst (parseGlucoseReadingFromText (answeringEnv (Inr goodGlucose)) ''sugar is 150'' [])
       = Inr (Some goodGlucose)"
proof -
  have 1: "\<not> requiredFieldsTyped glucoseSchema badGlucose"
    by (simp add: glucoseSchema_def badGlucose_def)
  have f: "\<And>v rq. fst (fetchJson (answeringEnv (Inr v)) rq []) = Inr v"
    by (simp add: fetchJson_answering)
  have 2: "fst (parseGlucoseReadingFromText (answeringEnv (Inr badGlucose)) ''sugar is 150'' [])
            = Inr None"
    using text_extraction_validates [of "answeringEnv (Inr badGlucose)" "''sugar is 150''" "[]"] 1 f
    by blast
  have 3: "fst (parseGlucoseReadingFromText offlineEnv ''sugar is 150'' []) = Inr None"
    using text_extraction_validates [of offlineEnv "''sugar is 150''" "[]"] requestFails_offline
    by blast
  have 4: "fst (parseGlucoseReadingFromText (answeringEnv (Inr goodGlucose)) ''sugar is 150'' [])
            = Inr (Some goodGlucose)"
    by (simp add: parseGlucoseReadingFromText_def extract_result fetchJson_answering
          glucoseValid_def goodGlucose_def)
  have 5: "requiredFieldsTyped glucoseSchema goodGlucose"
    using text_extraction_validates [of "answeringEnv (Inr goodGlucose)" "''sugar is 150''" "[]"] 4
    by blast
  from 2 3 4 5 show ?thesis by blast
qed

text \<open>
  C4. Each image extraction first issues the request of its classify operation. When
  classify returns a false value, the extraction throws its "does not appear to contain"
  error and issues no further request; when classify returns a true value, it issues
  the extraction request and returns, never throwing: the parsed response when it passes
  the validation, and \<^verbatim>\<open>null\<close> when the request fails or the response is not valid. So
  an exception tells the caller that the photo is of the wrong kind, and \<^verbatim>\<open>null\<close> that a
  photo of the right kind could not be read.
\<close>

theorem image_extraction_classifies_first:
  "(\<exists>v. isImageOfGlucoseMeter env base64Image mimeType reqs
          = (Inr v, reqs @ [classifyRequest base64Image mimeType AskGlucoseMeter ''isMeter''])
      \<and> (if truthy v
          then parseGlucoseReadingFromImage env base64Image mimeType reqs
               = (Inr (case fst (fetchJson env
                                   (imageRequest base64Image mimeType GlucoseFromImage glucoseSchema)
                                   (reqs @ [classifyRequest base64Image mimeType AskGlucoseMeter ''isMeter''])) of
                         Inl e \<Rightarrow> None
                       | Inr parsed \<Rightarrow> if glucoseValid parsed then Some parsed else None),
                  reqs @ [classifyRequest base64Image mimeType AskGlucoseMeter ''isMeter'',
                          imageRequest base64Image mimeType GlucoseFromImage glucoseSchema])
          else parseGlucoseReadingFromImage env base64Image mimeType reqs
               = (Inl (Error ''Image does not appear to contain a glucose meter.''),
                  reqs @ [classifyRequest base64Image mimeType AskGlucoseMeter ''isMeter''])))
   \<and> (\<exists>v. isImageOfFood env base64Image mimeType reqs
          = (Inr v, reqs @ [classifyRequest base64Image mimeType AskFood ''isFood''])
      \<and> (if truthy v
          then analyzeMealPhoto env base64Image mimeType reqs
               = (Inr (case fst (fetchJson env
                                   (imageRequest base64Image mimeType MealFromImage mealSchema)
                                   (reqs @ [classifyRequest base64Image mimeType AskFood ''isFood''])) of
                         Inl e \<Rightarrow> None
                       | Inr parsed \<Rightarrow> if mealValid parsed then Some parsed else None),
                  reqs @ [classifyRequest base64Image mimeType AskFood ''isFood'',
                          imageRequest base64Image mimeType MealFromImage mealSchema])
          else analyzeMealPhoto env base64Image mimeType reqs
               = (Inl (Error ''Image does not appear to contain food.''),
                  reqs @ [classifyRequest base64Image mimeType AskFood ''isFood''])))
   \<and> (\<exists>v. isImageOfWeightScale env base64Image mimeType reqs
          = (Inr v, reqs @ [classifyRequest base64Image mimeType AskWeightScale ''isScale''])
      \<and> (if truthy v
          then parseWeightFromImage env base64Image mimeType reqs
               = (Inr (case fst (fetchJson env
                                   (imageRequest base64Image mimeType WeightFromImage weightSchema)
                                   (reqs @ [classifyRequest base64Image mimeType AskWeightScale ''isScale''])) of
                         Inl e \<Rightarrow> None
                       | Inr parsed \<Rightarrow> if weightValid parsed then Some parsed else None),
                  reqs @ [classifyRequest base64Image mimeType AskWeightScale ''isScale'',
                          imageRequest base64Image mimeType WeightFromImage weightSchema])
          else parseWeightFromImage env base64Image mimeType reqs
               = (Inl (Error ''Image does not appear to contain a weight scale.''),
                  reqs @ [classifyRequest base64Image mimeType AskWeightScale ''isScale''])))
   \<and> (\<exists>v. isImageOfBloodPressureMonitor env base64Image mimeType reqs
          = (Inr v, reqs @ [classifyRequest base64Image mimeType AskBloodPressureMonitor ''isMonitor''])
      \<and> (if truthy v
          then parseBloodPressureFromImage env base64Image mimeType reqs
               = (Inr (case fst (fetchJson env
                                   (imageRequest base64Image mimeType BloodPressureFromImage
                                      bloodPressureSchema)
                                   (reqs @ [classifyRequest base64Image mimeType
                                              AskBloodPressureMonitor ''isMonitor''])) of
                         Inl e \<Rightarrow> None
                       | Inr parsed \<Rightarrow> if bloodPressureValid parsed then Some parsed else None),
                  reqs @ [classifyRequest base64Image mimeType AskBloodPressureMonitor ''isMonitor'',
                          imageRequest base64Image mimeType BloodPressureFromImage
                            bloodPressureSchema])
          else parseBloodPressureFromImage env base64Image mimeType reqs
               = (Inl (Error ''Image does not appear to contain a blood pressure monitor.''),
                  reqs @ [classifyRequest base64Image mimeType AskBloodPressureMonitor
                            ''isMonitor''])))"
  unfolding parseGlucoseReadingFromImage_def analyzeMealPhoto_def parseWeightFromImage_def
    parseBloodPressureFromImage_def
  by (rule conjI image_extraction [OF isImageOfGlucoseMeter_def]
        image_extraction [OF isImageOfFood_def] image_extraction [OF isImageOfWeightScale_def]
        image_extraction [OF isImageOfBloodPressureMonitor_def])+

text \<open>A photo that the backend says is not a glucose meter, and a photo of a meter for
  which the backend returns no reading.\<close>

theorem image_extraction_classifies_first_witness:
  "parseGlucoseReadingFromImage (answeringEnv (Inr notAMeter)) ''aGVsbG8='' ''image/jpeg'' []
     = (Inl (Error ''Image does not appear to contain a glucose meter.''),
        [classifyRequest ''aGVsbG8='' ''image/jpeg'' AskGlucoseMeter ''isMeter''])
   \<and> fst (parseGlucoseReadingFromImage (answeringEnv (Inr unreadableMeter)) ''aGVsbG8=''
            ''image/jpeg'' []) = Inr None"
proof
  show "parseGlucoseReadingFromImage (answeringEnv (Inr notAMeter)) ''aGVsbG8='' ''image/jpeg'' []
     = (Inl (Error ''Image does not appear to contain a glucose meter.''),
        [classifyRequest ''aGVsbG8='' ''image/jpeg'' AskGlucoseMeter ''isMeter''])"
    using image_extraction_classifies_first
            [of "answeringEnv (Inr notAMeter)" "''aGVsbG8=''" "''image/jpeg''" "[]"]
    by (simp add: notAMeter_def classify_answering)
next
  show "fst (parseGlucoseReadingFromImage (answeringEnv (Inr unreadableMeter)) ''aGVsbG8=''
            ''image/jpeg'' []) = Inr None"
    using image_extraction_classifies_first
            [of "answeringEnv (Inr unreadableMeter)" "''aGVsbG8=''" "''image/jpeg''" "[]"]
    by (simp add: unreadableMeter_def classify_answering fetchJson_answering glucoseValid_def)
qed

section \<open>Properties of the combined log\<close>

subsection \<open>Stable sorting and the lists of the five kinds\<close>

lemma sameTies_refl: "sameTies xs xs"
  by (simp add: sameTies_def)

lemma sameTies_trans: "sameTies xs ys \<Longrightarrow> sameTies ys zs \<Longrightarrow> sameTies xs zs"
  by (simp add: sameTies_def)

lemma sameTies_append: "sameTies a b \<Longrightarrow> sameTies c d \<Longrightarrow> sameTies (a @ c) (b @ d)"
  by (simp add: sameTies_def)

lemma timestamp_tagged: "timestamp (tagged k r) = timestamp r"
  by (simp add: tagged_def)

lemma sameTies_tagged: "sameTies a b \<Longrightarrow> sameTies (map (tagged k) a) (map (tagged k) b)"
  by (simp add: sameTies_def filter_map o_def timestamp_tagged)

lemma sameTies_sort: "sameTies (sortNewestFirst xs) xs"
proof -
  have "filter (\<lambda>e. timestamp e = t) (sort_key (\<lambda>e. - timestamp e) xs)
        = filter (\<lambda>e. timestamp e = t) xs" for t
    using sort_key_stable [of "\<lambda>e. - timestamp e" "- t" xs] by simp
  then show ?thesis by (simp add: sameTies_def sortNewestFirst_def)
qed

lemma sort_sameTies:
  assumes "sameTies xs ys"
  shows "sortNewestFirst xs = sortNewestFirst ys"
  unfolding sortNewestFirst_def
proof (rule properties_for_sort_key)
  let ?f = "\<lambda>e. - timestamp e"
  show "mset (sort_key ?f ys) = mset xs" using assms by (simp add: sameTies_def)
  show "sorted (map ?f (sort_key ?f ys))" by simp
  fix k assume "k \<in> set (sort_key ?f ys)"
  have "filter (\<lambda>x. ?f k = ?f x) (sort_key ?f ys) = filter (\<lambda>x. ?f x = ?f k) (sort_key ?f ys)"
    by (rule filter_cong) auto
  also have "\<dots> = filter (\<lambda>x. ?f x = ?f k) ys" by (rule sort_key_stable)
  also have "\<dots> = filter (\<lambda>e. timestamp e = timestamp k) ys" by simp
  also have "\<dots> = filter (\<lambda>e. timestamp e = timestamp k) xs"
    using assms by (simp add: sameTies_def)
  also have "\<dots> = filter (\<lambda>x. ?f k = ?f x) xs" by (rule filter_cong) auto
  finally show "filter (\<lambda>x. ?f k = ?f x) (sort_key ?f ys) = filter (\<lambda>x. ?f k = ?f x) xs" .
qed


lemma readingsOf_applyAppend:
  "readingsOf k (applyAppend a s) =
     (if kindOf a = k then sortNewestFirst (readingsOf k s @ [stored a]) else readingsOf k s)"
proof (cases a)
  case (Append k' r now)
  then show ?thesis
    by (cases k'; cases k)
       (simp_all add: addGlucoseReading_def addMeal_def addMedication_def addWeightReading_def
          addBloodPressureReading_def Let_def)
qed

lemma readingsOf_runAppends:
  "sameTies (readingsOf k (runAppends as s)) (readingsOf k s @ appended k as)"
proof (induction as arbitrary: s)
  case Nil
  show ?case by (simp add: appended_def sameTies_refl)
next
  case (Cons a as)
  have ih: "sameTies (readingsOf k (runAppends as (applyAppend a s)))
              (readingsOf k (applyAppend a s) @ appended k as)"
    by (rule Cons.IH)
  show ?case
  proof (cases "kindOf a = k")
    case True
    have "readingsOf k (applyAppend a s) = sortNewestFirst (readingsOf k s @ [stored a])"
      using True by (simp add: readingsOf_applyAppend)
    then have "sameTies (readingsOf k (applyAppend a s) @ appended k as)
            ((readingsOf k s @ [stored a]) @ appended k as)"
      by (simp only:) (intro sameTies_append sameTies_sort sameTies_refl)
    with ih have "sameTies (readingsOf k (runAppends as (applyAppend a s)))
                    ((readingsOf k s @ [stored a]) @ appended k as)"
      by (rule sameTies_trans)
    with True show ?thesis by (simp add: appended_def)
  next
    case False
    with ih show ?thesis by (simp add: readingsOf_applyAppend appended_def)
  qed
qed

lemma combinedLogs_readingsOf:
  "combinedLogs s =
     sortNewestFirst
       (map (tagged Glucose) (readingsOf Glucose s)
        @ map (tagged Meal) (readingsOf Meal s)
        @ map (tagged Medication) (readingsOf Medication s)
        @ map (tagged Weight) (readingsOf Weight s)
        @ map (tagged Blood_pressure) (readingsOf Blood_pressure s))"
  by (simp add: combinedLogs_def)

lemma spread_sameTies:
  "sameTies
     (map (tagged Glucose) (readingsOf Glucose (runAppends as s))
      @ map (tagged Meal) (readingsOf Meal (runAppends as s))
      @ map (tagged Medication) (readingsOf Medication (runAppends as s))
      @ map (tagged Weight) (readingsOf Weight (runAppends as s))
      @ map (tagged Blood_pressure) (readingsOf Blood_pressure (runAppends as s)))
     (byKindThenInsertion s as)"
  unfolding byKindThenInsertion_def
  by (intro sameTies_append sameTies_tagged readingsOf_runAppends)

lemma descending_sorted: "descending xs \<longleftrightarrow> sorted (map (\<lambda>e. - timestamp e) xs)"
  by (induction xs rule: descending.induct) fastforce+

lemma descending_sortNewestFirst: "descending (sortNewestFirst xs)"
  by (simp add: descending_sorted sortNewestFirst_def)

subsection \<open>The claim\<close>

text \<open>
  C5, as the code has it. After any sequence of appends, from any state of the five lists,
  the combined log is in descending order of timestamp, not strictly: entries may share a
  timestamp. It is the stable sort of the five lists spread in the order glucose, meal,
  medication, weight, blood pressure; so the entries of one timestamp stand grouped by
  kind in that order, and within a kind in the order of their insertion.
\<close>

theorem combinedLogs_descending_by_kind:
  "descending (combinedLogs (runAppends as s))
   \<and> combinedLogs (runAppends as s) = sortNewestFirst (byKindThenInsertion s as)
   \<and> filter (\<lambda>e. timestamp e = t) (combinedLogs (runAppends as s))
       = filter (\<lambda>e. timestamp e = t) (byKindThenInsertion s as)"
proof -
  have 1: "descending (combinedLogs (runAppends as s))"
    by (simp add: combinedLogs_def descending_sortNewestFirst)
  have 2: "combinedLogs (runAppends as s) = sortNewestFirst (byKindThenInsertion s as)"
    unfolding combinedLogs_readingsOf by (rule sort_sameTies) (rule spread_sameTies)
  have "sameTies (sortNewestFirst (byKindThenInsertion s as)) (byKindThenInsertion s as)"
    by (rule sameTies_sort)
  then have 3: "filter (\<lambda>e. timestamp e = t) (combinedLogs (runAppends as s))
       = filter (\<lambda>e. timestamp e = t) (byKindThenInsertion s as)"
    unfolding 2 by (simp add: sameTies_def)
  from 1 2 3 show ?thesis by blast
qed

text \<open>
  C5 as stated fails. A meal and then a glucose reading are logged for the same instant:
  the combined log shows the glucose reading first, where the order of insertion would
  show the meal first; and two entries share a timestamp, so the order is not strict.
\<close>

theorem combinedLogs_insertion_order_counterexample:
  "combinedLogs (runAppends mealThenGlucose emptyApp)
     = [\<lparr>id' = ''g2'', timestamp = 5, others = (), type' = Glucose\<rparr>,
        \<lparr>id' = ''m1'', timestamp = 5, others = (), type' = Meal\<rparr>]
   \<and> sortNewestFirst (insertionOrder mealThenGlucose)
     = [\<lparr>id' = ''m1'', timestamp = 5, others = (), type' = Meal\<rparr>,
        \<lparr>id' = ''g2'', timestamp = 5, others = (), type' = Glucose\<rparr>]
   \<and> combinedLogs (runAppends mealThenGlucose emptyApp)
       \<noteq> sortNewestFirst (insertionOrder mealThenGlucose)
   \<and> \<not> strictlyDescending (combinedLogs (runAppends mealThenGlucose emptyApp))"
  by (simp add: combinedLogs_def mealThenGlucose_def emptyApp_def addMeal_def
        addGlucoseReading_def sortNewestFirst_def tagged_def insertionOrder_def Let_def)

section \<open>Properties of the voice session\<close>

subsection \<open>The transcript and the calls of the extraction service\<close>








lemma run_append: "run (xs @ ys) s = run ys (run xs s)"
  by (induction xs arbitrary: s) simp_all










subsection \<open>The releases of \<^verbatim>\<open>stopListening\<close>\<close>

lemma releases_append: "releases (xs @ ys) = releases xs @ releases ys"
  by (simp add: releases_def)

lemma parseEffect_releases:
  "releases (effects (parseEffect prev s)) = releases (effects s)"
  "held (parseEffect prev s) = held s"
  "handlers (parseEffect prev s) = handlers s"
  "resolvedSessions (parseEffect prev s) = resolvedSessions s"
  by (simp_all add: parseEffect_def handleParseMedication_def emit_def releases_def held_def
        split: option.split)

lemma closeSession_releases:
  "releases (effects (closeSession s))
     = releases (effects s) @ (case sessionRef s of Some k \<Rightarrow> [SessionClose k] | None \<Rightarrow> [])"
  "sessionRef (closeSession s) = None"
  "streamRef (closeSession s) = streamRef s"
  "scriptProcessorRef (closeSession s) = scriptProcessorRef s"
  "inputAudioContextRef (closeSession s) = inputAudioContextRef s"
  "closedContexts (closeSession s) = closedContexts s"
  "suspendedStops (closeSession s) = suspendedStops s"
  by (simp_all add: closeSession_def emit_def releases_def split: option.split)

lemma stopListening_releases:
  "releases (effects (stopListening s)) = releases (effects s) @ stopNow s"
  by (cases "streamRef s"; cases "scriptProcessorRef s"; cases "inputAudioContextRef s";
      cases "sessionRef s")
     (simp_all add: stopListening_def Let_def closeSession_def emit_def releases_def stopNow_def)

lemma stopListening_view:
  "streamRef (stopListening s) = None
   \<and> scriptProcessorRef (stopListening s) = None
   \<and> inputAudioContextRef (stopListening s) = inputAudioContextRef s
   \<and> sessionRef (stopListening s)
     = (case inputAudioContextRef s of
          Some c \<Rightarrow> if c \<in> set (closedContexts s) then None else sessionRef s
        | None \<Rightarrow> None)
   \<and> closedContexts (stopListening s)
     = (case inputAudioContextRef s of
          Some c \<Rightarrow> if c \<in> set (closedContexts s) then closedContexts s else c # closedContexts s
        | None \<Rightarrow> closedContexts s)
   \<and> suspendedStops (stopListening s)
     = (case inputAudioContextRef s of
          Some c \<Rightarrow> if c \<in> set (closedContexts s) then suspendedStops s else suspendedStops s + 1
        | None \<Rightarrow> suspendedStops s)"
  by (cases "streamRef s"; cases "scriptProcessorRef s"; cases "inputAudioContextRef s";
      cases "sessionRef s")
     (simp_all add: stopListening_def Let_def closeSession_def emit_def)

lemma resume_view:
  "streamRef (stopListening_resume s) = streamRef s"
  "scriptProcessorRef (stopListening_resume s) = scriptProcessorRef s"
  "inputAudioContextRef (stopListening_resume s)
     = (if suspendedStops s = 0 then inputAudioContextRef s else None)"
  "sessionRef (stopListening_resume s) = (if suspendedStops s = 0 then sessionRef s else None)"
  "closedContexts (stopListening_resume s) = closedContexts s"
  "suspendedStops (stopListening_resume s) = suspendedStops s - 1"
  "releases (effects (stopListening_resume s))
     = releases (effects s)
       @ (if suspendedStops s = 0 then []
          else (case sessionRef s of Some k \<Rightarrow> [SessionClose k] | None \<Rightarrow> []))"
  by (simp_all add: stopListening_resume_def closeSession_def emit_def releases_def
        split: option.split)

lemma stopListening_held: "stopNow s @ held (stopListening s) = held s"
  using stopListening_view [of s]
  by (cases "streamRef s"; cases "scriptProcessorRef s"; cases "inputAudioContextRef s";
      cases "sessionRef s")
     (simp_all add: stopNow_def held_def)

lemma stopListening_resume_releases:
  "\<exists>rs. releases (effects (stopListening_resume s)) = releases (effects s) @ rs
        \<and> distinct rs \<and> set rs \<inter> set (held (stopListening_resume s)) = {}
        \<and> set rs \<union> set (held (stopListening_resume s)) \<subseteq> set (held s)"
  by (cases "streamRef s"; cases "scriptProcessorRef s"; cases "inputAudioContextRef s";
      cases "sessionRef s")
     (simp_all add: resume_view held_def)

lemma distinct_held: "distinct (held s)"
  by (auto simp: held_def split: option.split)

lemma step_isStop_releases:
  assumes "isStop e"
  shows "\<exists>rs. releases (effects (step e s)) = releases (effects s) @ rs
        \<and> distinct rs \<and> set rs \<inter> set (held (step e s)) = {}
        \<and> set rs \<union> set (held (step e s)) \<subseteq> set (held s)"
proof (cases e)
  case StopListening
  have d: "distinct (stopNow s @ held (stopListening s))"
    by (simp only: stopListening_held distinct_held)
  have "releases (effects (step e s)) = releases (effects s) @ stopNow s"
    using StopListening by (simp add: step_def parseEffect_releases stopListening_releases)
  moreover have "distinct (stopNow s)" using d by simp
  moreover have "set (stopNow s) \<inter> set (held (step e s)) = {}"
    using d StopListening by (simp add: step_def parseEffect_releases)
  moreover have "set (stopNow s) \<union> set (held (step e s)) \<subseteq> set (held s)"
    using stopListening_held [of s, symmetric] StopListening
    by (simp add: step_def parseEffect_releases)
  ultimately show ?thesis by blast
next
  case ContextClosed
  then show ?thesis
    using stopListening_resume_releases [of s] by (simp add: step_def parseEffect_releases)
qed (use assms in simp_all)

lemma run_isStop_releases:
  assumes "\<forall>e \<in> set es. isStop e"
  shows "\<exists>rs. releases (effects (run es s)) = releases (effects s) @ rs
        \<and> distinct rs \<and> set rs \<inter> set (held (run es s)) = {}
        \<and> set rs \<union> set (held (run es s)) \<subseteq> set (held s)"
  using assms
proof (induction es arbitrary: s)
  case Nil
  show ?case by simp
next
  case (Cons e es)
  from Cons.prems have e: "isStop e" and es: "\<forall>e \<in> set es. isStop e" by simp_all
  from step_isStop_releases [OF e, of s] obtain rs1 where
    1: "releases (effects (step e s)) = releases (effects s) @ rs1" "distinct rs1"
       "set rs1 \<inter> set (held (step e s)) = {}"
       "set rs1 \<union> set (held (step e s)) \<subseteq> set (held s)"
    by blast
  from Cons.IH [OF es, of "step e s"] obtain rs2 where
    2: "releases (effects (run es (step e s))) = releases (effects (step e s)) @ rs2" "distinct rs2"
       "set rs2 \<inter> set (held (run es (step e s))) = {}"
       "set rs2 \<union> set (held (run es (step e s))) \<subseteq> set (held (step e s))"
    by blast
  have "releases (effects (run (e # es) s)) = releases (effects s) @ (rs1 @ rs2)"
    using 1(1) 2(1) by simp
  moreover have "distinct (rs1 @ rs2)" using 1 2 by auto
  moreover have "set (rs1 @ rs2) \<inter> set (held (run (e # es) s)) = {}" using 1 2 by auto
  moreover have "set (rs1 @ rs2) \<union> set (held (run (e # es) s)) \<subseteq> set (held s)"
    using 1 2 by auto
  ultimately show ?case by blast
qed

lemma stop_resume_releases:
  "releases (effects (stopListening_resume (stopListening s))) = releases (effects s) @ held s
   \<and> held (stopListening_resume (stopListening s)) = []"
  using stopListening_view [of s]
  by (cases "streamRef s"; cases "scriptProcessorRef s"; cases "inputAudioContextRef s";
      cases "sessionRef s")
     (simp_all add: resume_view stopListening_releases stopNow_def held_def)

lemma resources_held:
  assumes "resources s = resources t"
  shows "held s = held t"
proof -
  from assms have e: "streamRef s = streamRef t" "scriptProcessorRef s = scriptProcessorRef t"
    "inputAudioContextRef s = inputAudioContextRef t" "sessionRef s = sessionRef t"
    "closedContexts s = closedContexts t"
    by (simp_all add: resources_def)
  show ?thesis unfolding held_def e ..
qed

lemma resources_releases:
  "resources s = resources t \<Longrightarrow> releases (effects s) = releases (effects t)"
  by (simp add: resources_def)

lemma resources_parseEffect: "resources (parseEffect prev s) = resources s"
  by (simp add: parseEffect_def handleParseMedication_def emit_def releases_def resources_def)



lemma resources_resume:
  assumes "resources s = resources t"
  shows "resources (stopListening_resume s) = resources (stopListening_resume t)"
proof -
  from assms have e: "streamRef s = streamRef t" "scriptProcessorRef s = scriptProcessorRef t"
    "inputAudioContextRef s = inputAudioContextRef t" "sessionRef s = sessionRef t"
    "closedContexts s = closedContexts t" "suspendedStops s = suspendedStops t"
    "releases (effects s) = releases (effects t)"
    by (simp_all add: resources_def)
  show ?thesis unfolding resources_def resume_view e by simp
qed

lemma resources_step_stop: "resources (step StopListening s) = resources (stopListening s)"
  by (simp add: step_def resources_parseEffect)



lemma resources_step_resume:
  assumes "resources s = resources t"
  shows "resources (step ContextClosed s) = resources (stopListening_resume t)"
  using resources_resume [OF assms] by (simp add: step_def resources_parseEffect)

lemma full_release:
  assumes "resources t = resources (stopListening s)"
  shows "releases (effects (step ContextClosed t)) = releases (effects s) @ held s
       \<and> held (step ContextClosed t) = []"
proof -
  have r: "resources (step ContextClosed t) = resources (stopListening_resume (stopListening s))"
    using assms by (rule resources_step_resume)
  from stop_resume_releases [of s] resources_held [OF r] resources_releases [OF r]
  show ?thesis by simp
qed

lemma held_empty_stays:
  assumes "held s = []" and "\<forall>e \<in> set es. isStop e"
  shows "releases (effects (run es s)) = releases (effects s)"
  using run_isStop_releases [OF assms(2), of s] assms(1) by auto

lemma idle_step: "idle s \<Longrightarrow> isStop e \<Longrightarrow> step e s = s"
proof (cases e)
  case StopListening
  assume "idle s"
  then have "stopListening s = s"
    by (simp add: idle_def stopListening_def Let_def closeSession_def)
  with StopListening show ?thesis by (simp add: step_def parseEffect_def)
next
  case ContextClosed
  assume "idle s"
  then have "stopListening_resume s = s" by (simp add: idle_def stopListening_resume_def)
  with ContextClosed show ?thesis by (simp add: step_def parseEffect_def)
qed simp_all

lemma idle_run: "idle s \<Longrightarrow> \<forall>e \<in> set es. isStop e \<Longrightarrow> run es s = s"
  by (induction es) (simp_all add: idle_step)


lemma stop_complete:
  assumes "resources t = resources (stopListening s)" and "\<forall>e \<in> set es. isStop e"
  shows "releases (effects (run (ContextClosed # es) t)) = releases (effects s) @ held s
       \<and> held (run (ContextClosed # es) t) = []"
proof -
  note f = full_release [OF assms(1)]
  from f have h: "held (step ContextClosed t) = []" by simp
  from run_isStop_releases [OF assms(2), of "step ContextClosed t"] h f
  show ?thesis by auto
qed

lemma stop_keeps_handlers:
  "handlers (stopListening s) = handlers s \<and> resolvedSessions (stopListening s) = resolvedSessions s"
  by (cases "streamRef s"; cases "scriptProcessorRef s"; cases "inputAudioContextRef s";
      cases "sessionRef s")
     (simp_all add: stopListening_def Let_def closeSession_def emit_def)

lemma resume_keeps_handlers:
  "handlers (stopListening_resume s) = handlers s
   \<and> resolvedSessions (stopListening_resume s) = resolvedSessions s"
  by (cases "sessionRef s") (simp_all add: stopListening_resume_def closeSession_def emit_def)

lemma stopped_keeps_handlers:
  "handlers (run [StopListening, ContextClosed] s) = handlers s
   \<and> resolvedSessions (run [StopListening, ContextClosed] s) = resolvedSessions s"
  by (simp add: step_def parseEffect_releases stop_keeps_handlers resume_keeps_handlers)

lemma audio_sends:
  assumes "map_of (handlers s) p = Some k" and "k \<in> set (resolvedSessions s)"
  shows "effects (step (AudioProcess p encoded) s)
           = effects s @ [SendRealtimeInput k (createBlob encoded)]"
  using assms by (simp add: step_def parseEffect_def onaudioprocess_def emit_def)

lemma connected_state:
  "run connecting initialModal =
     initialModal\<lparr>isListening := True, sessionRef := Some 1, inputAudioContextRef := Some 1,
       scriptProcessorRef := Some 1, streamRef := Some 1, resolvedSessions := [1],
       handlers := [(1, 1)], effects := [GetUserMedia, LiveConnect 1]\<rparr>"
  by code_simp

lemma connected_held:
  "held (run connecting initialModal) = [TrackStop 1, Disconnect 1, ContextClose 1, SessionClose 1]
   \<and> releases (effects (run connecting initialModal)) = []"
  by code_simp

lemma initialModal_is_idle: "idle initialModal"
  by code_simp

subsection \<open>The claims\<close>




text \<open>
  C7. In any sequence of calls of \<^verbatim>\<open>stopListening\<close> and resumptions of suspended calls,
  from any state: what is released is released once (the releases are distinct) and was
  held by a ref when the sequence began, so nothing released before or never acquired is
  released. After one call and its resumption everything that was held has been released,
  and further calls and resumptions release nothing. When nothing is held, nothing is
  released; and in an idle state the calls change nothing at all.
\<close>

theorem stopListening_idempotent:
  assumes "\<forall>e \<in> set es. isStop e"
  shows "(\<exists>rs. releases (effects (run es s)) = releases (effects s) @ rs
             \<and> distinct rs \<and> set rs \<subseteq> set (held s))
       \<and> releases (effects (run (StopListening # ContextClosed # es) s))
           = releases (effects s) @ held s
       \<and> (held s = [] \<longrightarrow> releases (effects (run es s)) = releases (effects s))
       \<and> (idle s \<longrightarrow> run es s = s)"
proof -
  have 1: "\<exists>rs. releases (effects (run es s)) = releases (effects s) @ rs
             \<and> distinct rs \<and> set rs \<subseteq> set (held s)"
    using run_isStop_releases [OF assms, of s] by auto
  have 2: "releases (effects (run (StopListening # ContextClosed # es) s))
           = releases (effects s) @ held s"
    using stop_complete [OF resources_step_stop assms, of s] by simp
  have 3: "held s = [] \<longrightarrow> releases (effects (run es s)) = releases (effects s)"
    using held_empty_stays [OF _ assms] by blast
  have 4: "idle s \<longrightarrow> run es s = s"
    using idle_run [OF _ assms] by blast
  from 1 2 3 4 show ?thesis by blast
qed

text \<open>Stopping a connected session three times, with two resumptions; and stopping
  the modal that has never listened.\<close>

theorem stopListening_idempotent_witness:
  "releases (effects (run (connecting @ [StopListening, ContextClosed, StopListening,
                                          ContextClosed, StopListening]) initialModal))
     = [TrackStop 1, Disconnect 1, ContextClose 1, SessionClose 1]
   \<and> run [StopListening, StopListening, ContextClosed] initialModal = initialModal"
proof -
  have a: "\<forall>e \<in> set [StopListening, ContextClosed, StopListening]. isStop e" by simp
  have b: "\<forall>e \<in> set [StopListening, StopListening, ContextClosed]. isStop e" by simp
  from stopListening_idempotent [OF a, of "run connecting initialModal"] connected_held
  have 1: "releases (effects (run (connecting @ [StopListening, ContextClosed, StopListening,
                                          ContextClosed, StopListening]) initialModal))
     = [TrackStop 1, Disconnect 1, ContextClose 1, SessionClose 1]"
    by (simp add: run_append)
  from stopListening_idempotent [OF b, of initialModal] initialModal_is_idle
  have 2: "run [StopListening, StopListening, ContextClosed] initialModal = initialModal"
    by blast
  from 1 2 show ?thesis by blast
qed

text \<open>
  C8, as the code has it. The capture callback checks no state. Whenever the callback of a
  script processor fires, and the session promise it closes over has resolved, the frame
  is passed to \<^verbatim>\<open>sendRealtimeInput\<close> of that session: in any state, listening or not, and
  also after \<^verbatim>\<open>stopListening\<close> has run to its end, which leaves the handler in place.
\<close>

theorem audio_callback_unguarded:
  assumes "map_of (handlers s) p = Some k" and "k \<in> set (resolvedSessions s)"
  shows "effects (step (AudioProcess p encoded) s)
           = effects s @ [SendRealtimeInput k (createBlob encoded)]
       \<and> effects (run [StopListening, ContextClosed, AudioProcess p encoded] s)
           = effects (run [StopListening, ContextClosed] s)
             @ [SendRealtimeInput k (createBlob encoded)]"
proof -
  let ?t = "run [StopListening, ContextClosed] s"
  from assms stopped_keeps_handlers [of s]
  have "map_of (handlers ?t) p = Some k" and "k \<in> set (resolvedSessions ?t)" by simp_all
  then have "effects (step (AudioProcess p encoded) ?t)
           = effects ?t @ [SendRealtimeInput k (createBlob encoded)]"
    by (rule audio_sends)
  moreover have "run [StopListening, ContextClosed, AudioProcess p encoded] s
                 = step (AudioProcess p encoded) ?t" by simp
  ultimately show ?thesis using audio_sends [OF assms] by simp
qed

theorem audio_callback_unguarded_witness:
  "map_of (handlers (run connecting initialModal)) 1 = Some 1
   \<and> 1 \<in> set (resolvedSessions (run connecting initialModal))
   \<and> effects (run (connecting @ [StopListening, ContextClosed, AudioProcess 1 ''AAAB''])
                initialModal)
       = effects (run (connecting @ [StopListening, ContextClosed]) initialModal)
         @ [SendRealtimeInput 1 (createBlob ''AAAB'')]"
proof -
  have h: "map_of (handlers (run connecting initialModal)) 1 = Some 1"
    and r: "1 \<in> set (resolvedSessions (run connecting initialModal))"
    by (simp_all add: connected_state)
  from audio_callback_unguarded [OF h r, of "''AAAB''"] h r
  show ?thesis by (simp add: run_append)
qed

text \<open>
  C8 as stated fails. A session is connected, sends a frame, and is stopped; the stop
  runs to its end and closes the channel. The callback then fires once more, for a frame
  captured around the stop: the session is not listening, and the frame is sent to the
  channel that has been closed.
\<close>

theorem straggler_frame_counterexample:
  "\<not> isListening (run (connecting @ [AudioProcess 1 ''AAAA'', StopListening, ContextClosed])
                    initialModal)
   \<and> effects (run stragglerSession initialModal)
       = [GetUserMedia, LiveConnect 1, SendRealtimeInput 1 (createBlob ''AAAA''),
          TrackStop 1, Disconnect 1, ContextClose 1, SessionClose 1,
          SendRealtimeInput 1 (createBlob ''AAAB'')]
   \<and> sentAfterClose (effects (run stragglerSession initialModal))"
  by code_simp




end
